theory Spec2Isabelle
  imports Main "HOL-Library.Word"
begin

section \<open>Data model\<close>

text \<open>
  The artwork resolver of steamgrid (the download half of the program, with the batch
  loop of \<^verbatim>\<open>startApplication\<close> that calls it). Every function that talks to the
  network is a function from the list of requests issued so far to a result and the
  extended list; a Go \<^verbatim>\<open>error\<close> is its message (\<open>None\<close> is \<^verbatim>\<open>nil\<close>), a run-time panic
  (index out of range, nil dereference) is the outcome \<open>Panic\<close>.
\<close>

type_synonym bytes = "8 word list"

type_synonym error = "string option"

text \<open>
  What the code reads from a \<^verbatim>\<open>*http.Response\<close>: the status, the Content-Type header,
  the path of the final request URL, and what \<^verbatim>\<open>ioutil.ReadAll\<close> gives for the body
  (the bytes read and the read error).
\<close>

record http_Response =
  StatusCode :: int
  Status :: string
  ContentType :: string
  URLPath :: string
  Body :: bytes
  BodyErr :: error

text \<open>
  The struct \<^verbatim>\<open>Game\<close> is declared in a file of the repository that is not among the
  sources at hand; these are the fields that the two source files read and write.
  A byte slice that may be \<^verbatim>\<open>nil\<close> is an option.
\<close>

record Game =
  ID :: string
  Name :: string
  Custom :: bool
  LegacyID :: "64 word"
  ImageSource :: string
  ImageExt :: string
  CleanImageBytes :: "bytes option"
  OverlayImageBytes :: "bytes option"

text \<open>The two JSON shapes of the SteamGridDB API, with the fields the code reads.\<close>

record steamGridDBData =
  dataURL :: string
  dataThumb :: string

record steamGridDBResponse =
  Success :: bool
  Data :: "steamGridDBData list"

record steamGridDBSearchData =
  searchID :: int
  searchName :: string

record steamGridDBSearchResponse =
  searchSuccess :: bool
  searchData :: "steamGridDBSearchData list"

record igdbGame =
  igdb_ID :: int
  igdb_Cover :: int
  igdb_Name :: string

record igdbCover =
  cover_ID :: int
  Image_ID :: string

text \<open>
  Functions of Go's standard library and of the three imported packages whose results
  the code only passes on or branches on. They are parameters of the model: a decoder
  yields \<open>Inl\<close> of the error message or \<open>Inr\<close> of the decoded value.
\<close>

record library =
  NewRequest_err :: "string \<Rightarrow> error"
  QueryEscape :: "string \<Rightarrow> string"
  Itoa :: "int \<Rightarrow> string"
  filepath_Ext :: "string \<Rightarrow> string"
  FindStringSubmatch :: "string \<Rightarrow> bytes \<Rightarrow> string list"
  fuzzy_Sort :: "steamGridDBSearchData list \<Rightarrow> string \<Rightarrow> steamGridDBSearchData list"
  strings_ToLower :: "string \<Rightarrow> string"
  Unmarshal_search :: "bytes \<Rightarrow> string + steamGridDBSearchResponse"
  Unmarshal_response :: "bytes \<Rightarrow> string + steamGridDBResponse"
  Unmarshal_token :: "bytes \<Rightarrow> string + string"
  Unmarshal_games :: "bytes \<Rightarrow> string + igdbGame list"
  Unmarshal_covers :: "bytes \<Rightarrow> string + igdbCover list"
  webpanimation_GetInfo :: "bytes \<Rightarrow> string + int \<times> int"
  apng_DecodeConfig :: "bytes \<Rightarrow> string + int \<times> int"
  image_DecodeConfig :: "bytes \<Rightarrow> string + int \<times> int"

subsection \<open>The network\<close>

text \<open>
  One constructor for each place where the code sends an HTTP request:
  \<^verbatim>\<open>http.Get\<close> in \<^verbatim>\<open>tryDownload\<close> (the URL), \<^verbatim>\<open>client.Do\<close> in
  \<^verbatim>\<open>steamGridDBGetRequest\<close> (URL, Authorization header), the two in
  \<^verbatim>\<open>igdbPostRequest\<close> (token: URL, body; query: URL, body, Client-ID, Authorization) and
  the one in \<^verbatim>\<open>getGoogleImage\<close> (URL, User-Agent).
\<close>

datatype request =
    HttpGet string
  | SteamGridDBDo string string
  | TwitchTokenDo string string
  | IGDBDo string string string string
  | GoogleDo string string

datatype reply = Failed string | Answered http_Response

type_synonym trace = "request list"

text \<open>The remote side may answer a request differently each time: it sees the history.\<close>

type_synonym network = "trace \<Rightarrow> request \<Rightarrow> reply"

datatype 'a outcome = Panic | Done 'a

type_synonym 'a io = "trace \<Rightarrow> 'a outcome \<times> trace"

definition ret :: "'a \<Rightarrow> 'a io" where
  "ret x = (\<lambda>tr. (Done x, tr))"

definition panic :: "'a io" where
  "panic = (\<lambda>tr. (Panic, tr))"

definition bind_io :: "'a io \<Rightarrow> ('a \<Rightarrow> 'b io) \<Rightarrow> 'b io" where
  "bind_io m f = (\<lambda>tr. case m tr of (Panic, t) \<Rightarrow> (Panic, t) | (Done x, t) \<Rightarrow> f x t)"

definition send :: "network \<Rightarrow> request \<Rightarrow> reply io" where
  "send net rq = (\<lambda>tr. (Done (net tr rq), tr @ [rq]))"

datatype provider = Downloader | CommunityDB | MetadataDB | WebSearch

fun kind :: "request \<Rightarrow> provider" where
  "kind (HttpGet u) = Downloader"
| "kind (SteamGridDBDo u a) = CommunityDB"
| "kind (TwitchTokenDo u b) = MetadataDB"
| "kind (IGDBDo u b c a) = MetadataDB"
| "kind (GoogleDo u a) = WebSearch"

definition issued :: "trace \<Rightarrow> trace \<Rightarrow> request list" where
  "issued tr tr' = drop (length tr) tr'"

definition requests_to :: "provider \<Rightarrow> request list \<Rightarrow> request list" where
  "requests_to p rs = filter (\<lambda>r. kind r = p) rs"

subsection \<open>Strings\<close>

text \<open>\<^verbatim>\<open>strings.Split(s, sep)\<close> for a separator of one character.\<close>

fun strings_Split :: "string \<Rightarrow> char \<Rightarrow> string list" where
  "strings_Split [] c = [[]]"
| "strings_Split (x # xs) c =
     (if x = c then [] # strings_Split xs c
      else (case strings_Split xs c of [] \<Rightarrow> [[x]] | y # ys \<Rightarrow> (x # y) # ys))"

fun has_prefix :: "string \<Rightarrow> string \<Rightarrow> bool" where
  "has_prefix s [] = True"
| "has_prefix [] (p # ps) = False"
| "has_prefix (x # xs) (p # ps) = (x = p \<and> has_prefix xs ps)"

text \<open>\<^verbatim>\<open>strings.Contains(s, substr)\<close>.\<close>

fun strings_Contains :: "string \<Rightarrow> string \<Rightarrow> bool" where
  "strings_Contains [] sub = (sub = [])"
| "strings_Contains (x # xs) sub = (has_prefix (x # xs) sub \<or> strings_Contains xs sub)"

section \<open>Web search\<close>

text \<open>\<^verbatim>\<open>fmt.Sprintf(googleSearchFormat, 460, 215)\<close>.\<close>

definition googleSearchURL :: string where
  "googleSearchURL =
     ''https://www.google.com.br/search?tbs=isz%3Aex%2Ciszw%3A460%2Ciszh%3A215&tbm=isch&num=5&q=''"

definition googleUserAgent :: string where
  "googleUserAgent =
     ''Mozilla/5.0 (Windows NT 6.3; WOW64) AppleWebKit/537.36 (KHTML, like Gecko) Chrome/39.0.2171.71 Safari/537.36''"

text \<open>
  The two regular expressions, as the raw string literals of the source spell them
  (\<open>CHR 0x5C\<close> is the backslash, \<open>CHR 0x22\<close> the double quote).
\<close>

definition googleSearchResultPatterns :: "string list" where
  "googleSearchResultPatterns =
     [''imgurl=(.+?'' @ [CHR 0x5C] @ ''.(jpeg|jpg|png))&amp;imgrefurl='',
      [CHR 0x5C, CHR 0x22] @ ''ou'' @ [CHR 0x5C, CHR 0x22] @ '':'' @ [CHR 0x5C, CHR 0x22] @ ''(.+?)''
        @ [CHR 0x5C, CHR 0x22] @ '','' @ [CHR 0x5C, CHR 0x22]]"

text \<open>
  The loop over the patterns: \<^verbatim>\<open>matches[1]\<close> is returned as soon as a pattern gives a
  non-empty match list; it panics on a list of one element.
\<close>

fun firstMatch :: "library \<Rightarrow> string list \<Rightarrow> bytes \<Rightarrow> (string \<times> error) outcome" where
  "firstMatch lib [] responseBytes = Done ('''', None)"
| "firstMatch lib (p # ps) responseBytes =
     (case FindStringSubmatch lib p responseBytes of
        [] \<Rightarrow> firstMatch lib ps responseBytes
      | [m0] \<Rightarrow> Panic
      | m0 # m1 # ms \<Rightarrow> Done (m1, None))"

definition getGoogleImage :: "network \<Rightarrow> library \<Rightarrow> string \<Rightarrow> string list \<Rightarrow> (string \<times> error) io" where
  "getGoogleImage net lib gameName artStyleExtensions =
     (if gameName = '''' then ret ('''', None)
      else
        let url = googleSearchURL @ QueryEscape lib gameName in
        (case NewRequest_err lib url of
           Some e \<Rightarrow> ret ('''', Some e)
         | None \<Rightarrow>
             bind_io (send net (GoogleDo url googleUserAgent)) (\<lambda>rp.
               case rp of
                 Failed e \<Rightarrow> ret ('''', Some e)
               | Answered response \<Rightarrow>
                   (case BodyErr response of
                      Some e \<Rightarrow> ret ('''', Some e)
                    | None \<Rightarrow> (\<lambda>tr. (firstMatch lib googleSearchResultPatterns (Body response), tr))))))"

section \<open>SteamGridDB\<close>

definition steamGridDBBaseURL :: string where
  "steamGridDBBaseURL = ''https://www.steamgriddb.com/api/v2''"

definition steamGridDBGetRequest :: "network \<Rightarrow> library \<Rightarrow> string \<Rightarrow> string \<Rightarrow> (bytes \<times> error) io" where
  "steamGridDBGetRequest net lib url steamGridDBApiKey =
     (case NewRequest_err lib url of
        Some e \<Rightarrow> ret ([], Some e)
      | None \<Rightarrow>
          bind_io (send net (SteamGridDBDo url (''Bearer '' @ steamGridDBApiKey))) (\<lambda>rp.
            case rp of
              Failed e \<Rightarrow> ret ([], Some e)
            | Answered response \<Rightarrow>
                if StatusCode response = 401 then ret ([], Some ''401'')
                else if StatusCode response = 404 then ret ([], Some ''404'')
                else (case BodyErr response of
                        Some e \<Rightarrow> ret ([], Some e)
                      | None \<Rightarrow> ret (Body response, None))))"

text \<open>\<^verbatim>\<open>artStyleExtensions[i]\<close>: a read past the end of the slice panics.\<close>

definition index :: "'a list \<Rightarrow> nat \<Rightarrow> 'a io" where
  "index xs i = (if i < length xs then ret (xs ! i) else panic)"

definition baseURL_of :: "string \<Rightarrow> string" where
  "baseURL_of nameExtension =
     (if nameExtension = ''.banner'' then steamGridDBBaseURL @ ''/grids''
      else if nameExtension = ''.cover'' then steamGridDBBaseURL @ ''/grids''
      else if nameExtension = ''.hero'' then steamGridDBBaseURL @ ''/heroes''
      else if nameExtension = ''.logo'' then steamGridDBBaseURL @ ''/logos''
      else '''')"

definition authInvalid :: string where
  "authInvalid = '' SteamGridDB authorization token is missing or invalid''"

text \<open>The selection at the end of an iteration, for a response with data.\<close>

definition selectURL :: "bool \<Rightarrow> steamGridDBData list \<Rightarrow> string" where
  "selectURL animatedFirst ds =
     (case (if animatedFirst then filter (\<lambda>d. strings_Contains (dataThumb d) ''webm'') ds else []) of
        d # _ \<Rightarrow> dataURL d
      | [] \<Rightarrow> dataURL (ds ! 0))"

text \<open>
  The tail of an iteration, from \<^verbatim>\<open>json.Unmarshal(responseBytes, &jsonResponse)\<close> on:
  \<open>Some\<close> is a return from the function, \<open>None\<close> goes on to the next iteration.
\<close>

definition decodeResponse :: "library \<Rightarrow> bool \<Rightarrow> bytes \<Rightarrow> (string \<times> error) option" where
  "decodeResponse lib animatedFirst responseBytes =
     (case Unmarshal_response lib responseBytes of
        Inl e \<Rightarrow> Some ('''', Some e)
      | Inr jsonResponse \<Rightarrow>
          if Success jsonResponse \<and> length (Data jsonResponse) \<ge> 1
          then Some (selectURL animatedFirst (Data jsonResponse), None)
          else None)"

text \<open>The branch taken on a 404: search by name, then ask for the best match.\<close>

definition searchByName ::
  "network \<Rightarrow> library \<Rightarrow> Game \<Rightarrow> string \<Rightarrow> string \<Rightarrow> string \<Rightarrow> bool \<Rightarrow> (string \<times> error) option io" where
  "searchByName net lib game baseURL filterQuery steamGridDBApiKey animatedFirst =
     bind_io (steamGridDBGetRequest net lib
                (steamGridDBBaseURL @ ''/search/autocomplete/'' @ Name game @ filterQuery) steamGridDBApiKey)
       (\<lambda>(responseBytes, err).
          if err = Some ''401'' then ret (Some ('''', Some authInvalid))
          else if err \<noteq> None then ret (Some ('''', err))
          else
            (case Unmarshal_search lib responseBytes of
               Inl e \<Rightarrow> ret (Some ('''', Some ''best search match doesn't has a requested type or style''))
             | Inr jsonSearchResponse \<Rightarrow>
                 bind_io
                   (if searchSuccess jsonSearchResponse \<and> length (searchData jsonSearchResponse) \<ge> 1
                    then (case fuzzy_Sort lib (searchData jsonSearchResponse)
                                 (strings_ToLower lib (Name game)) of
                            [] \<Rightarrow> panic
                          | d # _ \<Rightarrow> ret (searchID d))
                    else ret (- 1))
                   (\<lambda>SteamGridDBGameID.
                      if SteamGridDBGameID = - 1 then ret (Some ('''', None))
                      else
                        bind_io (steamGridDBGetRequest net lib
                                   (baseURL @ ''/game/'' @ Itoa lib SteamGridDBGameID @ filterQuery)
                                   steamGridDBApiKey)
                          (\<lambda>(responseBytes, err).
                             if err \<noteq> None then ret (Some ('''', err))
                             else ret (decodeResponse lib animatedFirst responseBytes)))))"

text \<open>One iteration of the loop of \<^verbatim>\<open>getSteamGridDBImage\<close>.\<close>

definition steamGridDBIteration ::
  "network \<Rightarrow> library \<Rightarrow> Game \<Rightarrow> string list \<Rightarrow> string \<Rightarrow> (string \<times> error) option io" where
  "steamGridDBIteration net lib game artStyleExtensions steamGridDBApiKey =
     bind_io (index artStyleExtensions 1) (\<lambda>nameExtension.
     bind_io (index artStyleExtensions 3) (\<lambda>filterQuery.
       let baseURL = baseURL_of nameExtension;
           url = baseURL @ ''/steam/'' @ ID game @ filterQuery;
           animatedFirst = strings_Contains url ''animated,static''
       in
       bind_io (if \<not> Custom game then steamGridDBGetRequest net lib url steamGridDBApiKey
                else ret ([], Some ''404''))
         (\<lambda>(responseBytes, err).
            if err = Some ''401'' then ret (Some ('''', Some authInvalid))
            else if err = Some ''404''
              then searchByName net lib game baseURL filterQuery steamGridDBApiKey animatedFirst
            else if err \<noteq> None then ret (Some ('''', err))
            else ret (decodeResponse lib animatedFirst responseBytes))))"

text \<open>\<^verbatim>\<open>for i := 0; i < 3; i += 2\<close>: the body does not read \<open>i\<close>.\<close>

function steamGridDBLoop ::
  "int \<Rightarrow> network \<Rightarrow> library \<Rightarrow> Game \<Rightarrow> string list \<Rightarrow> string \<Rightarrow> (string \<times> error) io" where
  "steamGridDBLoop i net lib game artStyleExtensions steamGridDBApiKey =
     (if i < 3
      then bind_io (steamGridDBIteration net lib game artStyleExtensions steamGridDBApiKey)
             (\<lambda>r. case r of
                     Some result \<Rightarrow> ret result
                   | None \<Rightarrow> steamGridDBLoop (i + 2) net lib game artStyleExtensions steamGridDBApiKey)
      else ret ('''', None))"
  by pat_completeness auto
termination
  by (relation "measure (\<lambda>(i, net, lib, game, artStyleExtensions, steamGridDBApiKey). nat (3 - i))") auto

declare steamGridDBLoop.simps [simp del]

definition getSteamGridDBImage ::
  "network \<Rightarrow> library \<Rightarrow> Game \<Rightarrow> string list \<Rightarrow> string \<Rightarrow> (string \<times> error) io" where
  "getSteamGridDBImage net lib game artStyleExtensions steamGridDBApiKey =
     steamGridDBLoop 0 net lib game artStyleExtensions steamGridDBApiKey"

section \<open>IGDB\<close>

definition igdbImageURL :: "string \<Rightarrow> string" where
  "igdbImageURL image_id = ''https://images.igdb.com/igdb/image/upload/t_720p/'' @ image_id @ ''.jpg''"

definition igdbGameURL :: string where
  "igdbGameURL = ''https://api.igdb.com/v4/games''"

definition igdbCoverURL :: string where
  "igdbCoverURL = ''https://api.igdb.com/v4/covers''"

definition igdbGameBody :: "string \<Rightarrow> string" where
  "igdbGameBody gameName = ''fields name,cover; search '' @ [CHR 0x22] @ gameName @ [CHR 0x22] @ '';''"

definition igdbCoverBody :: "string \<Rightarrow> string" where
  "igdbCoverBody cover = ''fields image_id; where id = '' @ cover @ '';''"

text \<open>
  The error of the first \<^verbatim>\<open>http.NewRequest\<close> is dropped and that of the second is
  looked at only after the request has been used: a request that could not be built is
  \<^verbatim>\<open>nil\<close>, and using it panics.
\<close>

definition igdbPostRequest ::
  "network \<Rightarrow> library \<Rightarrow> string \<Rightarrow> string \<Rightarrow> string \<Rightarrow> string \<Rightarrow> (bytes \<times> error) io" where
  "igdbPostRequest net lib url body IGDBSecret IGDBClient =
     (let tokenURL = ''https://id.twitch.tv/oauth2/token?client_id='' @ IGDBClient
                       @ ''&client_secret='' @ IGDBSecret @ ''&grant_type=client_credentials''
      in
      if NewRequest_err lib tokenURL \<noteq> None then panic
      else
        bind_io (send net (TwitchTokenDo tokenURL body)) (\<lambda>rp.
          case rp of
            Failed e \<Rightarrow> ret ([], Some e)
          | Answered tokenResponse \<Rightarrow>
              (case BodyErr tokenResponse of
                 Some e \<Rightarrow> ret ([], Some e)
               | None \<Rightarrow>
                   (case Unmarshal_token lib (Body tokenResponse) of
                      Inl jsonErr \<Rightarrow> ret ([], Some jsonErr)
                    | Inr token1 \<Rightarrow>
                        if NewRequest_err lib url \<noteq> None then panic
                        else
                          bind_io (send net (IGDBDo url body IGDBClient (''Bearer '' @ token1))) (\<lambda>rp.
                            case rp of
                              Failed e \<Rightarrow> ret ([], Some e)
                            | Answered response \<Rightarrow>
                                (case BodyErr response of
                                   Some e \<Rightarrow> ret ([], Some e)
                                 | None \<Rightarrow> ret (Body response, None)))))))"

definition getIGDBImage ::
  "network \<Rightarrow> library \<Rightarrow> string \<Rightarrow> string \<Rightarrow> string \<Rightarrow> (string \<times> error) io" where
  "getIGDBImage net lib gameName IGDBSecret IGDBClient =
     bind_io (igdbPostRequest net lib igdbGameURL (igdbGameBody gameName) IGDBSecret IGDBClient)
       (\<lambda>(responseBytes, err).
          if err \<noteq> None then ret ('''', err)
          else
            (case Unmarshal_games lib responseBytes of
               Inl e \<Rightarrow> ret ('''', None)
             | Inr jsonGameResponse \<Rightarrow>
                 (case jsonGameResponse of
                    [] \<Rightarrow> ret ('''', None)
                  | g # _ \<Rightarrow>
                      if igdb_Cover g = 0 then ret ('''', None)
                      else
                        bind_io (igdbPostRequest net lib igdbCoverURL
                                   (igdbCoverBody (Itoa lib (igdb_Cover g))) IGDBSecret IGDBClient)
                          (\<lambda>(responseBytes, err).
                             if err \<noteq> None then ret ('''', err)
                             else
                               (case Unmarshal_covers lib responseBytes of
                                  Inl e \<Rightarrow> ret ('''', None)
                                | Inr jsonCoverResponse \<Rightarrow>
                                    (case jsonCoverResponse of
                                       [] \<Rightarrow> ret ('''', None)
                                     | c # _ \<Rightarrow> ret (igdbImageURL (Image_ID c), None)))))))"

section \<open>The resolver\<close>

definition tryDownload :: "network \<Rightarrow> string \<Rightarrow> (http_Response option \<times> error) io" where
  "tryDownload net url =
     bind_io (send net (HttpGet url)) (\<lambda>rp.
       case rp of
         Failed e \<Rightarrow> ret (None, Some e)
       | Answered response \<Rightarrow>
           if StatusCode response = 404 then ret (None, None)
           else if StatusCode response \<ge> 400
             then ret (None, Some (''Failed to download image '' @ url @ '': '' @ Status response))
           else ret (Some response, None))"

text \<open>
  \<^verbatim>\<open>fmt.Sprintf(akamaiURLFormat+artStyleExtensions[2], game.ID)\<close> and the same with
  \<^verbatim>\<open>steamCdnURLFormat\<close>, for a suffix without a formatting verb (those of
  \<^verbatim>\<open>startApplication\<close> have none).
\<close>

definition akamaiURL :: "string \<Rightarrow> string \<Rightarrow> string" where
  "akamaiURL steamUrlExtension gameID =
     ''https://steamcdn-a.akamaihd.net/steam/apps/'' @ gameID @ ''/'' @ steamUrlExtension"

definition steamCdnURL :: "string \<Rightarrow> string \<Rightarrow> string" where
  "steamCdnURL steamUrlExtension gameID =
     ''cdn.akamai.steamstatic.com/steam/apps/'' @ gameID @ ''/'' @ steamUrlExtension"

text \<open>
  The function has three named results, \<open>(response, from, err)\<close>. Each of its blocks
  either returns them (\<open>Inl\<close>) or falls through to the next block (\<open>Inr\<close>) with the
  local state the next block reads.
\<close>

type_synonym alternatives = "http_Response option \<times> string \<times> error"

definition or_return :: "('r + 'a) io \<Rightarrow> ('a \<Rightarrow> 'r io) \<Rightarrow> 'r io" where
  "or_return m f = bind_io m (\<lambda>x. case x of Inl r \<Rightarrow> ret r | Inr a \<Rightarrow> f a)"

text \<open>Lines 376 to 395: the two Steam servers. Falls through with \<open>from\<close>.\<close>

definition steamServers ::
  "network \<Rightarrow> Game \<Rightarrow> string list \<Rightarrow> bool \<Rightarrow> bool \<Rightarrow> bool \<Rightarrow> (alternatives + string) io" where
  "steamServers net game artStyleExtensions skipSteam onlyMissingArtwork steamGridDBOnly =
     (if \<not> skipSteam \<and> \<not> steamGridDBOnly then
        bind_io (index artStyleExtensions 2) (\<lambda>steamUrlExtension.
        bind_io (tryDownload net (akamaiURL steamUrlExtension (ID game))) (\<lambda>(response, err).
          if err = None \<and> response \<noteq> None then
            (if onlyMissingArtwork then ret (Inl (None, '''', None))
             else ret (Inl (response, ''steam server'', err)))
          else
            bind_io (tryDownload net (steamCdnURL steamUrlExtension (ID game))) (\<lambda>(response, err).
              if err = None \<and> response \<noteq> None then
                (if onlyMissingArtwork then ret (Inl (None, '''', None))
                 else ret (Inl (response, ''steam server'', err)))
              else ret (Inr ''steam server''))))
      else ret (Inr ''steam server''))"

text \<open>
  Lines 397 to 404. A block that returns does so with the \<open>response\<close> left by the block
  before, which is \<^verbatim>\<open>nil\<close> whenever that block fell through. Falls through with
  \<open>(from, url)\<close>.
\<close>

definition fromSteamGridDB ::
  "network \<Rightarrow> library \<Rightarrow> Game \<Rightarrow> string list \<Rightarrow> string \<Rightarrow> string \<Rightarrow> (alternatives + string \<times> string) io" where
  "fromSteamGridDB net lib game artStyleExtensions steamGridDBApiKey from =
     (let url = '''' in
      if steamGridDBApiKey \<noteq> '''' \<and> url = '''' then
        bind_io (getSteamGridDBImage net lib game artStyleExtensions steamGridDBApiKey) (\<lambda>(url, err).
          if err \<noteq> None then ret (Inl (None, ''SteamGridDB'', err))
          else ret (Inr (''SteamGridDB'', url)))
      else ret (Inr (from, url)))"

text \<open>Lines 406 to 413.\<close>

definition fromIGDB ::
  "network \<Rightarrow> library \<Rightarrow> Game \<Rightarrow> string \<Rightarrow> string \<Rightarrow> string \<Rightarrow> bool \<Rightarrow> string \<times> string
     \<Rightarrow> (alternatives + string \<times> string) io" where
  "fromIGDB net lib game artStyle IGDBSecret IGDBClient steamGridDBOnly = (\<lambda>(from, url).
     if artStyle = ''Cover'' \<and> IGDBClient \<noteq> '''' \<and> IGDBSecret \<noteq> '''' \<and> url = '''' \<and> \<not> steamGridDBOnly then
       bind_io (getIGDBImage net lib (Name game) IGDBSecret IGDBClient) (\<lambda>(url, err).
         if err \<noteq> None then ret (Inl (None, ''IGDB'', err))
         else ret (Inr (''IGDB'', url)))
     else ret (Inr (from, url)))"

text \<open>Lines 415 to 422.\<close>

definition fromGoogle ::
  "network \<Rightarrow> library \<Rightarrow> Game \<Rightarrow> string \<Rightarrow> string list \<Rightarrow> bool \<Rightarrow> bool \<Rightarrow> string \<times> string
     \<Rightarrow> (alternatives + string \<times> string) io" where
  "fromGoogle net lib game artStyle artStyleExtensions skipGoogle steamGridDBOnly = (\<lambda>(from, url).
     if \<not> skipGoogle \<and> artStyle = ''Banner'' \<and> url = '''' \<and> \<not> steamGridDBOnly then
       bind_io (getGoogleImage net lib (Name game) artStyleExtensions) (\<lambda>(url, err).
         if err \<noteq> None then ret (Inl (None, ''search'', err))
         else ret (Inr (''search'', url)))
     else ret (Inr (from, url)))"

text \<open>Lines 424 to 429: the download of the candidate.\<close>

definition finalDownload :: "network \<Rightarrow> string \<times> string \<Rightarrow> alternatives io" where
  "finalDownload net = (\<lambda>(from, url).
     bind_io (tryDownload net url) (\<lambda>(response, err).
       if err = None \<and> response \<noteq> None then ret (response, from, err)
       else ret (None, '''', None)))"

definition getImageAlternatives ::
  "network \<Rightarrow> library \<Rightarrow> Game \<Rightarrow> string \<Rightarrow> string list \<Rightarrow> bool \<Rightarrow> string \<Rightarrow> string \<Rightarrow> string
     \<Rightarrow> bool \<Rightarrow> bool \<Rightarrow> bool \<Rightarrow> alternatives io" where
  "getImageAlternatives net lib game artStyle artStyleExtensions skipSteam steamGridDBApiKey
       IGDBSecret IGDBClient skipGoogle onlyMissingArtwork steamGridDBOnly =
     or_return (steamServers net game artStyleExtensions skipSteam onlyMissingArtwork steamGridDBOnly)
       (\<lambda>from.
     or_return (fromSteamGridDB net lib game artStyleExtensions steamGridDBApiKey from)
       (\<lambda>st.
     or_return (fromIGDB net lib game artStyle IGDBSecret IGDBClient steamGridDBOnly st)
       (\<lambda>st.
     or_return (fromGoogle net lib game artStyle artStyleExtensions skipGoogle steamGridDBOnly st)
       (finalDownload net))))"

section \<open>Download and validation\<close>

text \<open>
  Lines 441 to 458: the extension. \<^verbatim>\<open>strings.Split(contentType, "/")[1]\<close> panics for a
  content type without a slash.
\<close>

definition imageExt :: "library \<Rightarrow> http_Response \<Rightarrow> string io" where
  "imageExt lib response =
     (let contentType = ContentType response;
          urlExt = filepath_Ext lib (URLPath response)
      in
      bind_io
        (if contentType \<noteq> '''' then
           bind_io (index (strings_Split contentType CHR ''/'') 1) (\<lambda>subtype. ret (''.'' @ subtype))
         else if urlExt \<noteq> '''' then ret urlExt
         else ret ''jpg'')
        (\<lambda>ext.
           if ext = ''.jpeg'' then ret ''.jpg''
           else if ext = ''.octet-stream'' then ret ''.png''
           else ret ext))"

text \<open>Lines 463 to 492: the size of the image, or the error of the last decoder tried.\<close>

definition imgSize :: "library \<Rightarrow> string \<Rightarrow> bytes \<Rightarrow> string + int \<times> int" where
  "imgSize lib contentType imageBytes =
     (if strings_Contains contentType ''webp'' then webpanimation_GetInfo lib imageBytes
      else
        (case apng_DecodeConfig lib imageBytes of
           Inr apngConfig \<Rightarrow> Inr apngConfig
         | Inl e \<Rightarrow> image_DecodeConfig lib imageBytes))"

text \<open>
  \<^verbatim>\<open>DownloadImage\<close> writes into \<^verbatim>\<open>*game\<close>: the model returns the game with the two
  results. The read error of the body is dropped by the code.
\<close>

definition DownloadImage ::
  "network \<Rightarrow> library \<Rightarrow> string \<Rightarrow> Game \<Rightarrow> string \<Rightarrow> string list \<Rightarrow> bool \<Rightarrow> string \<Rightarrow> string \<Rightarrow> string
     \<Rightarrow> bool \<Rightarrow> bool \<Rightarrow> bool \<Rightarrow> (string \<times> error \<times> Game) io" where
  "DownloadImage net lib gridDir game artStyle artStyleExtensions skipSteam steamGridDBApiKey
       IGDBSecret IGDBClient skipGoogle onlyMissingArtwork steamGridDBOnly =
     bind_io (getImageAlternatives net lib game artStyle artStyleExtensions skipSteam steamGridDBApiKey
                IGDBSecret IGDBClient skipGoogle onlyMissingArtwork steamGridDBOnly)
       (\<lambda>(response, from, err).
          case response of
            None \<Rightarrow> ret ('''', err, game)
          | Some r \<Rightarrow>
              if err \<noteq> None then ret ('''', err, game)
              else
                bind_io (imageExt lib r) (\<lambda>ext.
                  let game = game\<lparr>ImageExt := ext\<rparr>;
                      imageBytes = Body r
                  in
                  (case imgSize lib (ContentType r) imageBytes of
                     Inl e \<Rightarrow> ret ('''', Some e, game)
                   | Inr (X, Y) \<Rightarrow>
                       if artStyle = ''Banner'' \<and> X < Y then ret ('''', None, game)
                       else if artStyle = ''Cover'' \<and> X > Y then ret ('''', None, game)
                       else ret (from, None, game\<lparr>ImageSource := from, CleanImageBytes := Some imageBytes\<rparr>))))"

text \<open>The game as \<^verbatim>\<open>DownloadImage\<close> leaves it, when it returns.\<close>

definition stored :: "(string \<times> error \<times> Game) outcome \<times> trace \<Rightarrow> Game option" where
  "stored x = (case fst x of Panic \<Rightarrow> None | Done (label, err, game) \<Rightarrow> Some game)"

section \<open>The batch loop\<close>

text \<open>
  Lines 226 to 234 of \<^verbatim>\<open>startApplication\<close>: the download for one game and one style, and
  what it does to the API key, which the loop shares between all its rounds: the result
  is the key as the round leaves it, the error, and the game. The call in the source gives
  \<^verbatim>\<open>DownloadImage\<close> no value for its last parameter; it is a parameter here.
\<close>

definition downloadIfMissing ::
  "network \<Rightarrow> library \<Rightarrow> string \<Rightarrow> Game \<Rightarrow> string \<Rightarrow> string list \<Rightarrow> bool \<Rightarrow> string \<Rightarrow> string \<Rightarrow> string
     \<Rightarrow> bool \<Rightarrow> bool \<Rightarrow> bool \<Rightarrow> (string \<times> error \<times> Game) io" where
  "downloadIfMissing net lib gridDir game artStyle artStyleExtensions skipSteam steamGridDBApiKey
       IGDBSecret IGDBClient skipGoogle onlyMissingArtwork steamGridDBOnly =
     (if ImageSource game = '''' then
        bind_io (DownloadImage net lib gridDir game artStyle artStyleExtensions skipSteam steamGridDBApiKey
                   IGDBSecret IGDBClient skipGoogle onlyMissingArtwork steamGridDBOnly)
          (\<lambda>(from, err, game).
             if err \<noteq> None \<and> err = Some ''SteamGridDB authorization token is missing or invalid''
             then ret ('''', err, game)
             else ret (steamGridDBApiKey, err, game))
      else ret (steamGridDBApiKey, None, game))"

section \<open>Counting requests\<close>

text \<open>
  A budget gives, for each provider, how many requests a computation may send.
  \<open>emits m b\<close>: from any history, \<open>m\<close> only appends to it, within the budget \<open>b\<close>.
\<close>

definition within :: "(provider \<Rightarrow> nat) \<Rightarrow> request list \<Rightarrow> bool" where
  "within b new = (\<forall>p. length (requests_to p new) \<le> b p)"

definition emits :: "'a io \<Rightarrow> (provider \<Rightarrow> nat) \<Rightarrow> bool" where
  "emits m b = (\<forall>tr. \<exists>new. snd (m tr) = tr @ new \<and> within b new)"

text \<open>\<open>sends_only m P\<close>: every request that \<open>m\<close> sends satisfies \<open>P\<close>.\<close>

definition sends_only :: "'a io \<Rightarrow> (request \<Rightarrow> bool) \<Rightarrow> bool" where
  "sends_only m P = (\<forall>tr. \<exists>new. snd (m tr) = tr @ new \<and> list_all P new)"

definition only :: "provider \<Rightarrow> nat \<Rightarrow> provider \<Rightarrow> nat" where
  "only p n = (\<lambda>q. if q = p then n else 0)"

definition budget :: "string \<Rightarrow> bool \<Rightarrow> string \<Rightarrow> provider \<Rightarrow> nat" where
  "budget artStyle noSteam steamGridDBApiKey p =
     (case p of
        Downloader \<Rightarrow> if noSteam then 1 else 3
      | CommunityDB \<Rightarrow> if steamGridDBApiKey = '''' then 0 else 6
      | MetadataDB \<Rightarrow> if artStyle = ''Cover'' then 4 else 0
      | WebSearch \<Rightarrow> if artStyle = ''Banner'' then 1 else 0)"

text \<open>A download succeeds when the server answers with a status below 400.\<close>

definition succeeds :: "network \<Rightarrow> trace \<Rightarrow> string \<Rightarrow> bool" where
  "succeeds net tr url =
     (case net tr (HttpGet url) of Failed e \<Rightarrow> False | Answered response \<Rightarrow> StatusCode response < 400)"

section \<open>Test doubles\<close>

text \<open>
  A library whose decoders read a one-byte body: the empty body is malformed, the body
  \<open>[1]\<close> is a full answer, any other body is a well-formed answer without data.
\<close>

definition respond :: "int \<Rightarrow> string \<Rightarrow> bytes \<Rightarrow> reply" where
  "respond code contentType body =
     Answered \<lparr>StatusCode = code, Status = '''', ContentType = contentType, URLPath = '''',
               Body = body, BodyErr = None\<rparr>"

definition stubLibrary :: library where
  "stubLibrary =
     \<lparr>NewRequest_err = (\<lambda>u. None),
      QueryEscape = (\<lambda>s. s),
      Itoa = (\<lambda>i. if i = 9 then ''9'' else ''0''),
      filepath_Ext = (\<lambda>p. if p = ''/steam/apps/220/header.jpeg'' then ''.jpeg'' else ''''),
      FindStringSubmatch = (\<lambda>p b. []),
      fuzzy_Sort = (\<lambda>ds q. ds),
      strings_ToLower = (\<lambda>s. s),
      Unmarshal_search = (\<lambda>b. if b = [] then Inl ''unexpected end of JSON input''
         else if b = [1] then
           Inr \<lparr>searchSuccess = True, searchData = [\<lparr>searchID = 9, searchName = ''Half-Life 2''\<rparr>]\<rparr>
         else Inr \<lparr>searchSuccess = False, searchData = []\<rparr>),
      Unmarshal_response = (\<lambda>b. if b = [] then Inl ''unexpected end of JSON input''
         else if b = [1] then
           Inr \<lparr>Success = True,
                Data = [\<lparr>dataURL = ''https://cdn2.steamgriddb.com/grid/1.png'', dataThumb = ''''\<rparr>]\<rparr>
         else Inr \<lparr>Success = False, Data = []\<rparr>),
      Unmarshal_token = (\<lambda>b. if b = [] then Inl ''unexpected end of JSON input'' else Inr ''token''),
      Unmarshal_games = (\<lambda>b. if b = [] then Inl ''unexpected end of JSON input''
         else if b = [1] then Inr [\<lparr>igdb_ID = 5, igdb_Cover = 9, igdb_Name = ''Half-Life 2''\<rparr>]
         else Inr []),
      Unmarshal_covers = (\<lambda>b. if b = [] then Inl ''unexpected end of JSON input''
         else if b = [1] then Inr [\<lparr>cover_ID = 9, Image_ID = ''abc123''\<rparr>]
         else Inr []),
      webpanimation_GetInfo = (\<lambda>b. if b = [] then Inl ''could not read header'' else Inr (600, 900)),
      apng_DecodeConfig = (\<lambda>b. Inl ''not a PNG file''),
      image_DecodeConfig = (\<lambda>b. if b = [2] then Inr (460, 215) else Inl ''image: unknown format'')\<rparr>"

definition halfLife :: Game where
  "halfLife = \<lparr>ID = ''220'', Name = ''Half-Life 2'', Custom = False, LegacyID = 0, ImageSource = '''', ImageExt = '''',
     CleanImageBytes = None, OverlayImageBytes = None\<rparr>"

definition shortcut :: Game where
  "shortcut = \<lparr>ID = ''3405062478'', Name = ''Emulator'', Custom = True, LegacyID = 0, ImageSource = '''',
     ImageExt = '''', CleanImageBytes = None, OverlayImageBytes = None\<rparr>"

text \<open>Three rows of the table \<^verbatim>\<open>artStyles\<close> of \<^verbatim>\<open>startApplication\<close>, for the default flags.\<close>

definition bannerExtensions :: "string list" where
  "bannerExtensions = ['''', ''.banner'', ''header.jpg'',
     ''?styles=alternate&types=static&nsfw=false&humor=false&dimensions=460x215,920x430'']"

definition coverExtensions :: "string list" where
  "coverExtensions = [''p'', ''.cover'', ''library_600x900_2x.jpg'',
     ''?styles=alternate&types=static&nsfw=false&humor=false&dimensions=600x900,342x482,660x930'']"

definition heroExtensions :: "string list" where
  "heroExtensions = [''_hero'', ''.hero'', ''library_hero.jpg'',
     ''?styles=alternate&types=static&nsfw=false&humor=false&dimensions=1920x620,3840x1240,1600x650'']"

text \<open>Networks that answer by the kind of the request alone.\<close>

definition nowhere :: network where
  "nowhere = (\<lambda>tr rq. respond 404 '''' [])"

definition unauthorized :: network where
  "unauthorized = (\<lambda>tr rq. case rq of SteamGridDBDo u a \<Rightarrow> respond 401 '''' [] | _ \<Rightarrow> respond 404 '''' [])"

definition onSteam :: network where
  "onSteam = (\<lambda>tr rq. case rq of HttpGet u \<Rightarrow> respond 200 ''image/webp'' [1] | _ \<Rightarrow> respond 404 '''' [])"

definition brokenCDN :: network where
  "brokenCDN = (\<lambda>tr rq. case rq of
       SteamGridDBDo u a \<Rightarrow> respond 200 ''application/json'' [1]
     | HttpGet u \<Rightarrow> respond 500 '''' []
     | _ \<Rightarrow> respond 404 '''' [])"

definition noData :: network where
  "noData = (\<lambda>tr rq. case rq of
       SteamGridDBDo u a \<Rightarrow> respond 200 ''application/json'' [0]
     | _ \<Rightarrow> respond 404 '''' [])"

definition garbledIGDB :: network where
  "garbledIGDB = (\<lambda>tr rq. case rq of
       TwitchTokenDo u b \<Rightarrow> respond 200 ''application/json'' [1]
     | IGDBDo u b c a \<Rightarrow> respond 200 ''text/html'' []
     | _ \<Rightarrow> respond 404 '''' [])"

definition igdbKnows :: network where
  "igdbKnows = (\<lambda>tr rq. case rq of
       TwitchTokenDo u b \<Rightarrow> respond 200 ''application/json'' [1]
     | IGDBDo u b c a \<Rightarrow> respond 200 ''application/json'' [1]
     | _ \<Rightarrow> respond 404 '''' [])"

definition garbledSteamGridDB :: network where
  "garbledSteamGridDB = (\<lambda>tr rq. case rq of
       SteamGridDBDo u a \<Rightarrow> respond 200 ''text/html'' []
     | _ \<Rightarrow> respond 404 '''' [])"

definition garbledToken :: network where
  "garbledToken = (\<lambda>tr rq. case rq of
       TwitchTokenDo u b \<Rightarrow> respond 200 ''text/html'' []
     | _ \<Rightarrow> respond 404 '''' [])"

definition garbledCovers :: network where
  "garbledCovers = (\<lambda>tr rq. case rq of
       TwitchTokenDo u b \<Rightarrow> respond 200 ''application/json'' [1]
     | IGDBDo u b c a \<Rightarrow>
         if u = igdbCoverURL then respond 200 ''text/html'' [] else respond 200 ''application/json'' [1]
     | _ \<Rightarrow> respond 404 '''' [])"

definition serves :: "string \<Rightarrow> bytes \<Rightarrow> network" where
  "serves contentType body = (\<lambda>tr rq. case rq of
       HttpGet u \<Rightarrow> respond 200 contentType body
     | _ \<Rightarrow> respond 404 '''' [])"

definition noContentType :: network where
  "noContentType = (\<lambda>tr rq. case rq of
       HttpGet u \<Rightarrow>
         Answered \<lparr>StatusCode = 200, Status = ''200 OK'', ContentType = '''',
                   URLPath = ''/steam/apps/220/header.jpeg'', Body = [2], BodyErr = None\<rparr>
     | _ \<Rightarrow> respond 404 '''' [])"

text \<open>SteamGridDB answers 404, then a search result, then 401.\<close>

definition unauthorizedLate :: network where
  "unauthorizedLate = (\<lambda>tr rq. case rq of
       SteamGridDBDo u a \<Rightarrow>
         if length tr = 0 then respond 404 '''' []
         else if length tr = 1 then respond 200 ''application/json'' [1]
         else respond 401 '''' []
     | _ \<Rightarrow> respond 404 '''' [])"

definition offline :: network where
  "offline = (\<lambda>tr rq. Failed ''dial tcp: i/o timeout'')"

section \<open>The request monad\<close>

lemma bind_ret: "bind_io (ret x) f = f x"
  by (simp add: bind_io_def ret_def)

lemma bind_panic: "bind_io panic f = panic"
  by (simp add: bind_io_def panic_def)

lemma bind_if: "bind_io (if c then m else n) f = (if c then bind_io m f else bind_io n f)"
  by simp

lemma bind_case_list:
  "bind_io (case xs of [] \<Rightarrow> m | y # ys \<Rightarrow> n y ys) f =
     (case xs of [] \<Rightarrow> bind_io m f | y # ys \<Rightarrow> bind_io (n y ys) f)"
  by (simp split: list.splits)

lemma bind_index: "bind_io (index xs i) f = (if i < length xs then f (xs ! i) else panic)"
  by (simp add: index_def bind_ret bind_panic)

lemmas bind_simps = bind_ret bind_panic bind_if bind_case_list bind_index

lemma or_return_apply:
  "or_return m f tr =
     (case m tr of
        (Panic, t) \<Rightarrow> (Panic, t)
      | (Done (Inl r), t) \<Rightarrow> (Done r, t)
      | (Done (Inr a), t) \<Rightarrow> f a t)"
  by (simp add: or_return_def bind_io_def ret_def split: prod.splits outcome.splits sum.splits)

text \<open>The loop of \<^verbatim>\<open>getSteamGridDBImage\<close> runs its body for \<open>i = 0\<close> and \<open>i = 2\<close>.\<close>

lemma steamGridDBLoop_unroll:
  "steamGridDBLoop 0 net lib game exts key =
     bind_io (steamGridDBIteration net lib game exts key) (\<lambda>r. case r of
        Some result \<Rightarrow> ret result
      | None \<Rightarrow> bind_io (steamGridDBIteration net lib game exts key) (\<lambda>r. case r of
            Some result \<Rightarrow> ret result
          | None \<Rightarrow> ret ('''', None)))"
  by (simp add: steamGridDBLoop.simps [of 0] steamGridDBLoop.simps [of 2] steamGridDBLoop.simps [of 4])

subsection \<open>Budgets compose\<close>

lemma emits_ret: "emits (ret x) b"
  by (simp add: emits_def within_def requests_to_def ret_def)

lemma emits_panic: "emits panic b"
  by (simp add: emits_def within_def requests_to_def panic_def)

lemma emits_Pair: "emits (Pair x) b"
  by (simp add: emits_def within_def requests_to_def)

lemma emits_send: "1 \<le> b (kind rq) \<Longrightarrow> emits (send net rq) b"
  by (simp add: emits_def within_def requests_to_def send_def)

lemma emits_mono: "emits m b \<Longrightarrow> (\<And>p. b p \<le> b' p) \<Longrightarrow> emits m b'"
  unfolding emits_def within_def by (meson order_trans)

lemma emits_bind:
  assumes m: "emits m b1" and f: "\<And>x. emits (f x) b2" and le: "\<And>p. b1 p + b2 p \<le> b p"
  shows "emits (bind_io m f) b"
  unfolding emits_def
proof
  fix tr
  from m obtain n1 where n1: "snd (m tr) = tr @ n1" "within b1 n1"
    unfolding emits_def by blast
  show "\<exists>new. snd (bind_io m f tr) = tr @ new \<and> within b new"
  proof (cases "fst (m tr)")
    case Panic
    then have "snd (bind_io m f tr) = tr @ n1"
      using n1 by (cases "m tr") (simp add: bind_io_def)
    moreover have "within b n1"
      using n1(2) le unfolding within_def by (meson add_leD1 order_trans)
    ultimately show ?thesis by blast
  next
    case (Done x)
    from f obtain n2 where n2: "snd (f x (tr @ n1)) = (tr @ n1) @ n2" "within b2 n2"
      unfolding emits_def by blast
    have "snd (bind_io m f tr) = tr @ (n1 @ n2)"
      using Done n1 n2 by (cases "m tr") (simp add: bind_io_def)
    moreover have "within b (n1 @ n2)"
      unfolding within_def
    proof
      fix p
      have "length (requests_to p (n1 @ n2)) = length (requests_to p n1) + length (requests_to p n2)"
        by (simp add: requests_to_def)
      also have "\<dots> \<le> b1 p + b2 p"
        using n1(2) n2(2) unfolding within_def by (simp add: add_mono)
      finally show "length (requests_to p (n1 @ n2)) \<le> b p"
        using le order_trans by blast
    qed
    ultimately show ?thesis by blast
  qed
qed

lemma emits_bind_leaf:
  assumes "emits m b1" and "\<And>p. b1 p \<le> b p" and "\<And>x. emits (f x) (\<lambda>p. b p - b1 p)"
  shows "emits (bind_io m f) b"
  using assms(1,3) by (rule emits_bind) (simp add: assms(2))

lemma emits_send_bind:
  "1 \<le> b (kind rq) \<Longrightarrow> (\<And>x. emits (f x) (\<lambda>p. b p - only (kind rq) 1 p))
     \<Longrightarrow> emits (bind_io (send net rq) f) b"
  by (rule emits_bind_leaf [where ?b1.0 = "only (kind rq) 1"]) (auto simp: only_def intro: emits_send)

lemma emits_or_return:
  assumes "emits m b1" and "\<And>p. b1 p \<le> b p" and "\<And>x. emits (f x) (\<lambda>p. b p - b1 p)"
  shows "emits (or_return m f) b"
  unfolding or_return_def
  by (rule emits_bind_leaf [OF assms(1,2)]) (auto intro!: emits_ret assms(3) split: sum.splits)

lemma issued_append: "issued tr (tr @ new) = new"
  by (simp add: issued_def)

lemma issued_bound: "emits m b \<Longrightarrow> length (requests_to p (issued tr (snd (m tr)))) \<le> b p"
  unfolding emits_def within_def issued_def by (metis append_eq_conv_conj)

subsection \<open>The budget of each function\<close>

lemma emits_steamGridDBGetRequest:
  "emits (steamGridDBGetRequest net lib url key) (only CommunityDB 1)"
  unfolding steamGridDBGetRequest_def
  by (auto intro!: emits_ret emits_send_bind simp: only_def split: option.splits reply.splits)

lemma emits_searchByName:
  "emits (searchByName net lib game baseURL filterQuery key animatedFirst) (only CommunityDB 2)"
  unfolding searchByName_def
  by (auto simp: bind_simps only_def
        intro!: emits_ret emits_panic emits_bind_leaf [OF emits_steamGridDBGetRequest]
                emits_mono [OF emits_steamGridDBGetRequest]
        split: option.splits sum.splits list.splits)

lemma emits_steamGridDBIteration:
  "emits (steamGridDBIteration net lib game exts key) (only CommunityDB 3)"
  unfolding steamGridDBIteration_def Let_def
  by (auto simp: bind_simps only_def
        intro!: emits_ret emits_panic emits_bind_leaf [OF emits_steamGridDBGetRequest]
                emits_mono [OF emits_searchByName]
        split: option.splits sum.splits list.splits)

lemma emits_getSteamGridDBImage:
  "emits (getSteamGridDBImage net lib game exts key) (only CommunityDB 6)"
  unfolding getSteamGridDBImage_def steamGridDBLoop_unroll
  by (auto simp: bind_simps only_def
        intro!: emits_ret emits_panic emits_bind_leaf [OF emits_steamGridDBIteration]
                emits_mono [OF emits_steamGridDBIteration]
        split: option.splits sum.splits list.splits)

lemma emits_igdbPostRequest:
  "emits (igdbPostRequest net lib url body secret client) (only MetadataDB 2)"
  unfolding igdbPostRequest_def Let_def
  by (auto simp: bind_simps only_def intro!: emits_ret emits_panic emits_send_bind
        split: option.splits sum.splits list.splits reply.splits)

lemma emits_getIGDBImage:
  "emits (getIGDBImage net lib name secret client) (only MetadataDB 4)"
  unfolding getIGDBImage_def
  by (auto simp: bind_simps only_def
        intro!: emits_ret emits_panic emits_bind_leaf [OF emits_igdbPostRequest]
                emits_mono [OF emits_igdbPostRequest]
        split: option.splits sum.splits list.splits)

lemma emits_getGoogleImage:
  "emits (getGoogleImage net lib name exts) (only WebSearch 1)"
  unfolding getGoogleImage_def Let_def
  by (auto simp: bind_simps only_def intro!: emits_ret emits_panic emits_send_bind emits_Pair
        split: option.splits sum.splits list.splits reply.splits)

lemma emits_tryDownload:
  "emits (tryDownload net url) (only Downloader 1)"
  unfolding tryDownload_def
  by (auto simp: bind_simps only_def intro!: emits_ret emits_panic emits_send_bind
        split: option.splits sum.splits list.splits reply.splits)

lemma emits_steamServers:
  "emits (steamServers net game exts skipSteam onlyMissing sgdbOnly)
     (only Downloader (if skipSteam \<or> sgdbOnly then 0 else 2))"
  unfolding steamServers_def
  by (auto simp: bind_simps only_def
        intro!: emits_ret emits_panic emits_bind_leaf [OF emits_tryDownload] emits_mono [OF emits_tryDownload]
        split: option.splits)

lemma emits_fromSteamGridDB:
  "emits (fromSteamGridDB net lib game exts key from) (only CommunityDB (if key = '''' then 0 else 6))"
  unfolding fromSteamGridDB_def Let_def
  by (auto simp: bind_simps only_def
        intro!: emits_ret emits_panic emits_bind_leaf [OF emits_getSteamGridDBImage])

lemma emits_fromIGDB:
  "emits (fromIGDB net lib game artStyle secret client sgdbOnly st)
     (only MetadataDB (if artStyle = ''Cover'' then 4 else 0))"
  unfolding fromIGDB_def
  by (auto simp: bind_simps only_def
        intro!: emits_ret emits_panic emits_bind_leaf [OF emits_getIGDBImage] split: prod.splits)

lemma emits_fromGoogle:
  "emits (fromGoogle net lib game artStyle exts skipGoogle sgdbOnly st)
     (only WebSearch (if artStyle = ''Banner'' then 1 else 0))"
  unfolding fromGoogle_def
  by (auto simp: bind_simps only_def
        intro!: emits_ret emits_panic emits_bind_leaf [OF emits_getGoogleImage] split: prod.splits)

lemma emits_finalDownload:
  "emits (finalDownload net st) (only Downloader 1)"
  unfolding finalDownload_def
  by (auto simp: bind_simps only_def
        intro!: emits_ret emits_panic emits_bind_leaf [OF emits_tryDownload] split: prod.splits)

lemma emits_getImageAlternatives:
  "emits (getImageAlternatives net lib game artStyle exts skipSteam key secret client skipGoogle
            onlyMissing sgdbOnly)
     (budget artStyle (skipSteam \<or> sgdbOnly) key)"
  unfolding getImageAlternatives_def
  apply (rule emits_or_return [OF emits_steamServers])
   apply (simp add: only_def budget_def split: provider.splits)
  apply (rule emits_or_return [OF emits_fromSteamGridDB])
   apply (simp add: only_def budget_def split: provider.splits)
  apply (rule emits_or_return [OF emits_fromIGDB])
   apply (simp add: only_def budget_def split: provider.splits)
  apply (rule emits_or_return [OF emits_fromGoogle])
   apply (simp add: only_def budget_def split: provider.splits)
  apply (rule emits_mono [OF emits_finalDownload])
  apply (simp add: only_def budget_def split: provider.splits)
  done

subsection \<open>Evaluating the model on the test doubles\<close>

lemmas resolver_defs =
  getImageAlternatives_def or_return_def bind_io_def ret_def panic_def send_def index_def
  steamServers_def fromSteamGridDB_def fromIGDB_def fromGoogle_def finalDownload_def tryDownload_def
  akamaiURL_def steamCdnURL_def
  getSteamGridDBImage_def steamGridDBLoop_unroll steamGridDBIteration_def searchByName_def
  steamGridDBGetRequest_def decodeResponse_def selectURL_def baseURL_of_def steamGridDBBaseURL_def
  getIGDBImage_def igdbPostRequest_def igdbGameURL_def igdbCoverURL_def igdbGameBody_def
  igdbCoverBody_def igdbImageURL_def
  getGoogleImage_def googleSearchURL_def googleUserAgent_def googleSearchResultPatterns_def
  DownloadImage_def imageExt_def imgSize_def downloadIfMissing_def authInvalid_def
  issued_def requests_to_def succeeds_def

lemmas double_defs =
  respond_def stubLibrary_def halfLife_def shortcut_def bannerExtensions_def coverExtensions_def
  heroExtensions_def nowhere_def unauthorized_def onSteam_def brokenCDN_def noData_def
  garbledIGDB_def igdbKnows_def offline_def
  garbledSteamGridDB_def garbledToken_def garbledCovers_def
  serves_def noContentType_def unauthorizedLate_def

section \<open>The claims\<close>

subsection \<open>C6: how often a provider is asked\<close>

text \<open>
  C6 as stated fails: within one resolution the lookup sequence of SteamGridDB can run a
  second time. With a well-formed answer that holds no data, the loop of
  \<^verbatim>\<open>getSteamGridDBImage\<close> sends the very same request again.
\<close>

theorem lookup_repeated_counterexample:
  "issued [] (snd (getImageAlternatives noData stubLibrary halfLife ''Hero'' heroExtensions
        True ''key'' '''' '''' True False False [])) =
     [SteamGridDBDo
        ''https://www.steamgriddb.com/api/v2/heroes/steam/220?styles=alternate&types=static&nsfw=false&humor=false&dimensions=1920x620,3840x1240,1600x650''
        ''Bearer key'',
      SteamGridDBDo
        ''https://www.steamgriddb.com/api/v2/heroes/steam/220?styles=alternate&types=static&nsfw=false&humor=false&dimensions=1920x620,3840x1240,1600x650''
        ''Bearer key'',
      HttpGet '''']"
  by (simp add: resolver_defs double_defs)

text \<open>
  C6, amended: \<^verbatim>\<open>getSteamGridDBImage\<close> is its lookup sequence run once and, when that
  yields no data, once more; one resolution sends at most six requests to SteamGridDB
  (two runs of at most three), at most four to IGDB (one lookup: two token exchanges and
  two queries), at most one web search, and at most three downloads (the two Steam
  servers and the candidate).
\<close>

theorem requests_per_resolution:
  "getSteamGridDBImage net lib game exts key =
     bind_io (steamGridDBIteration net lib game exts key) (\<lambda>r. case r of
        Some result \<Rightarrow> ret result
      | None \<Rightarrow> bind_io (steamGridDBIteration net lib game exts key) (\<lambda>r. case r of
            Some result \<Rightarrow> ret result
          | None \<Rightarrow> ret ('''', None)))
   \<and> length (requests_to CommunityDB (issued tr (snd (getImageAlternatives net lib game artStyle exts
        skipSteam key secret client skipGoogle onlyMissing sgdbOnly tr)))) \<le> 6
   \<and> length (requests_to MetadataDB (issued tr (snd (getImageAlternatives net lib game artStyle exts
        skipSteam key secret client skipGoogle onlyMissing sgdbOnly tr)))) \<le> 4
   \<and> length (requests_to WebSearch (issued tr (snd (getImageAlternatives net lib game artStyle exts
        skipSteam key secret client skipGoogle onlyMissing sgdbOnly tr)))) \<le> 1
   \<and> length (requests_to Downloader (issued tr (snd (getImageAlternatives net lib game artStyle exts
        skipSteam key secret client skipGoogle onlyMissing sgdbOnly tr)))) \<le> 3"
proof -
  let ?new = "issued tr (snd (getImageAlternatives net lib game artStyle exts
        skipSteam key secret client skipGoogle onlyMissing sgdbOnly tr))"
  have b: "length (requests_to p ?new) \<le> budget artStyle (skipSteam \<or> sgdbOnly) key p" for p
    by (rule issued_bound [OF emits_getImageAlternatives])
  have "length (requests_to CommunityDB ?new) \<le> 6"
    using b [of CommunityDB] by (simp add: budget_def split: if_splits)
  moreover have "length (requests_to MetadataDB ?new) \<le> 4"
    using b [of MetadataDB] by (simp add: budget_def split: if_splits)
  moreover have "length (requests_to WebSearch ?new) \<le> 1"
    using b [of WebSearch] by (simp add: budget_def split: if_splits)
  moreover have "length (requests_to Downloader ?new) \<le> 3"
    using b [of Downloader] by (simp add: budget_def split: if_splits)
  ultimately show ?thesis
    by (simp add: getSteamGridDBImage_def steamGridDBLoop_unroll)
qed

subsection \<open>C1: which provider is asked, and when\<close>

lemma fromIGDB_skipped:
  "url \<noteq> '''' \<Longrightarrow> fromIGDB net lib game artStyle secret client sgdbOnly (from, url) = ret (Inr (from, url))"
  by (simp add: fromIGDB_def)

lemma fromGoogle_skipped:
  "url \<noteq> '''' \<Longrightarrow> fromGoogle net lib game artStyle exts skipGoogle sgdbOnly (from, url) = ret (Inr (from, url))"
  by (simp add: fromGoogle_def)

lemma or_return_ret_Inr: "or_return (ret (Inr a)) f = f a"
  by (simp add: or_return_def bind_ret)

text \<open>
  C1: the resolver never sends a request to IGDB for a style other than Cover, nor a web
  search for a style other than Banner; and a later block is skipped once a candidate URL
  exists: with a non-empty URL the IGDB block and the search block fall through without
  a request and without touching the state, so that, when the SteamGridDB block (or the
  IGDB block) falls through with a non-empty URL, all that is left of the function is the
  download of that URL.
\<close>

theorem sources_by_style_first_candidate_wins:
  "(artStyle \<noteq> ''Cover'' \<longrightarrow>
      requests_to MetadataDB (issued tr (snd (getImageAlternatives net lib game artStyle exts
        skipSteam key secret client skipGoogle onlyMissing sgdbOnly tr))) = [])
   \<and> (artStyle \<noteq> ''Banner'' \<longrightarrow>
      requests_to WebSearch (issued tr (snd (getImageAlternatives net lib game artStyle exts
        skipSteam key secret client skipGoogle onlyMissing sgdbOnly tr))) = [])
   \<and> (url \<noteq> '''' \<longrightarrow>
      fromIGDB net lib game artStyle secret client sgdbOnly (label, url) tr = (Done (Inr (label, url)), tr)
      \<and> fromGoogle net lib game artStyle exts skipGoogle sgdbOnly (label, url) tr = (Done (Inr (label, url)), tr))
   \<and> (steamServers net game exts skipSteam onlyMissing sgdbOnly tr = (Done (Inr from0), t1)
        \<and> fromSteamGridDB net lib game exts key from0 t1 = (Done (Inr (from1, url)), t2)
        \<and> url \<noteq> '''' \<longrightarrow>
      getImageAlternatives net lib game artStyle exts skipSteam key secret client skipGoogle
        onlyMissing sgdbOnly tr = finalDownload net (from1, url) t2)
   \<and> (steamServers net game exts skipSteam onlyMissing sgdbOnly tr = (Done (Inr from0), t1)
        \<and> fromSteamGridDB net lib game exts key from0 t1 = (Done (Inr st1), t2)
        \<and> fromIGDB net lib game artStyle secret client sgdbOnly st1 t2 = (Done (Inr (from2, url)), t3)
        \<and> url \<noteq> '''' \<longrightarrow>
      getImageAlternatives net lib game artStyle exts skipSteam key secret client skipGoogle
        onlyMissing sgdbOnly tr = finalDownload net (from2, url) t3)"
proof -
  let ?new = "issued tr (snd (getImageAlternatives net lib game artStyle exts
        skipSteam key secret client skipGoogle onlyMissing sgdbOnly tr))"
  have b: "length (requests_to p ?new) \<le> budget artStyle (skipSteam \<or> sgdbOnly) key p" for p
    by (rule issued_bound [OF emits_getImageAlternatives])
  have igdb: "artStyle \<noteq> ''Cover'' \<Longrightarrow> requests_to MetadataDB ?new = []"
    using b [of MetadataDB] by (simp add: budget_def)
  have google: "artStyle \<noteq> ''Banner'' \<Longrightarrow> requests_to WebSearch ?new = []"
    using b [of WebSearch] by (simp add: budget_def)
  have skipped: "url \<noteq> '''' \<Longrightarrow>
      fromIGDB net lib game artStyle secret client sgdbOnly (label, url) tr = (Done (Inr (label, url)), tr)
      \<and> fromGoogle net lib game artStyle exts skipGoogle sgdbOnly (label, url) tr = (Done (Inr (label, url)), tr)"
    by (simp add: fromIGDB_skipped fromGoogle_skipped ret_def)
  have second: "getImageAlternatives net lib game artStyle exts skipSteam key secret client skipGoogle
        onlyMissing sgdbOnly tr = finalDownload net (from1, url) t2"
    if "steamServers net game exts skipSteam onlyMissing sgdbOnly tr = (Done (Inr from0), t1)"
      and "fromSteamGridDB net lib game exts key from0 t1 = (Done (Inr (from1, url)), t2)"
      and "url \<noteq> ''''"
    using that
    by (simp add: getImageAlternatives_def or_return_apply fromIGDB_skipped fromGoogle_skipped ret_def)
  have third: "getImageAlternatives net lib game artStyle exts skipSteam key secret client skipGoogle
        onlyMissing sgdbOnly tr = finalDownload net (from2, url) t3"
    if "steamServers net game exts skipSteam onlyMissing sgdbOnly tr = (Done (Inr from0), t1)"
      and "fromSteamGridDB net lib game exts key from0 t1 = (Done (Inr st1), t2)"
      and "fromIGDB net lib game artStyle secret client sgdbOnly st1 t2 = (Done (Inr (from2, url)), t3)"
      and "url \<noteq> ''''"
    using that
    by (simp add: getImageAlternatives_def or_return_apply fromGoogle_skipped ret_def)
  show ?thesis
    using igdb google skipped second third by blast
qed

text \<open>
  The theorem at work: a Hero with a SteamGridDB candidate, the IGDB block handed a
  candidate, and a Cover whose candidate comes from IGDB.
\<close>

theorem sources_by_style_witness:
  "requests_to MetadataDB (issued [] (snd (getImageAlternatives brokenCDN stubLibrary halfLife ''Hero''
      heroExtensions True ''key'' ''secret'' ''client'' False False False []))) = []
   \<and> requests_to WebSearch (issued [] (snd (getImageAlternatives brokenCDN stubLibrary halfLife ''Hero''
      heroExtensions True ''key'' ''secret'' ''client'' False False False []))) = []
   \<and> fromIGDB brokenCDN stubLibrary halfLife ''Cover'' ''secret'' ''client'' False
        (''SteamGridDB'', ''https://cdn2.steamgriddb.com/grid/1.png'') [] =
      (Done (Inr (''SteamGridDB'', ''https://cdn2.steamgriddb.com/grid/1.png'')), [])
   \<and> getImageAlternatives brokenCDN stubLibrary halfLife ''Hero''
        heroExtensions True ''key'' ''secret'' ''client'' False False False [] =
      finalDownload brokenCDN (''SteamGridDB'', ''https://cdn2.steamgriddb.com/grid/1.png'')
        [SteamGridDBDo
          ''https://www.steamgriddb.com/api/v2/heroes/steam/220?styles=alternate&types=static&nsfw=false&humor=false&dimensions=1920x620,3840x1240,1600x650''
          ''Bearer key'']
   \<and> getImageAlternatives igdbKnows stubLibrary halfLife ''Cover''
        coverExtensions True '''' ''secret'' ''client'' False False False [] =
      finalDownload igdbKnows (''IGDB'', ''https://images.igdb.com/igdb/image/upload/t_720p/abc123.jpg'')
        (issued [] (snd (getIGDBImage igdbKnows stubLibrary ''Half-Life 2'' ''secret'' ''client'' [])))"
proof -
  note hero = sources_by_style_first_candidate_wins
    [where artStyle = "''Hero''" and net = brokenCDN and lib = stubLibrary and game = halfLife
       and exts = heroExtensions and skipSteam = True and key = "''key''" and secret = "''secret''"
       and client = "''client''" and skipGoogle = False and onlyMissing = False and sgdbOnly = False
       and tr = "[]" and ?from0.0 = "''steam server''" and ?t1.0 = "[]" and ?from1.0 = "''SteamGridDB''"
       and url = "''https://cdn2.steamgriddb.com/grid/1.png''"
       and ?t2.0 = "[SteamGridDBDo
          ''https://www.steamgriddb.com/api/v2/heroes/steam/220?styles=alternate&types=static&nsfw=false&humor=false&dimensions=1920x620,3840x1240,1600x650''
          ''Bearer key'']"]
  note cover = sources_by_style_first_candidate_wins
    [where artStyle = "''Cover''" and net = igdbKnows and lib = stubLibrary and game = halfLife
       and exts = coverExtensions and skipSteam = True and key = "''''" and secret = "''secret''"
       and client = "''client''" and skipGoogle = False and onlyMissing = False and sgdbOnly = False
       and tr = "[]" and ?from0.0 = "''steam server''" and ?t1.0 = "[]" and ?st1.0 = "(''steam server'', '''')"
       and ?t2.0 = "[]" and ?from2.0 = "''IGDB''"
       and url = "''https://images.igdb.com/igdb/image/upload/t_720p/abc123.jpg''"
       and ?t3.0 = "issued [] (snd (getIGDBImage igdbKnows stubLibrary ''Half-Life 2'' ''secret'' ''client'' []))"]
  have c: "fromIGDB brokenCDN stubLibrary halfLife ''Cover'' ''secret'' ''client'' False
        (''SteamGridDB'', ''https://cdn2.steamgriddb.com/grid/1.png'') [] =
      (Done (Inr (''SteamGridDB'', ''https://cdn2.steamgriddb.com/grid/1.png'')), [])"
    using sources_by_style_first_candidate_wins
      [where url = "''https://cdn2.steamgriddb.com/grid/1.png''" and net = brokenCDN and lib = stubLibrary
         and game = halfLife and artStyle = "''Cover''" and secret = "''secret''" and client = "''client''"
         and sgdbOnly = False and label = "''SteamGridDB''" and tr = "[]"]
    by simp
  show ?thesis
    using hero cover c by (simp add: resolver_defs double_defs)
qed

subsection \<open>C3: artwork that is already on a Steam server\<close>

lemma tryDownload_succeeds:
  "succeeds net tr url \<Longrightarrow>
     \<exists>response. tryDownload net url tr = (Done (Some response, None), tr @ [HttpGet url])"
  by (auto simp: succeeds_def tryDownload_def bind_io_def send_def ret_def split: reply.splits)

lemma tryDownload_fails:
  "\<not> succeeds net tr url \<Longrightarrow>
     \<exists>e. tryDownload net url tr = (Done (None, e), tr @ [HttpGet url])"
  by (auto simp: succeeds_def tryDownload_def bind_io_def send_def ret_def split: reply.splits)

lemma finalDownload_fails:
  "\<not> succeeds net tr url \<Longrightarrow>
     finalDownload net (label, url) tr = (Done (None, '''', None), tr @ [HttpGet url])"
  using tryDownload_fails [of net tr url] by (auto simp: finalDownload_def bind_io_def ret_def)

text \<open>
  C3 as stated fails: the outcome for artwork that is already on a Steam server is not set
  apart from the outcome for artwork found nowhere. With \<^verbatim>\<open>onlyMissingArtwork\<close> set,
  the resolver returns \<open>(nil, "", nil)\<close> both when the first Steam server has the image
  and when no server has it, and \<^verbatim>\<open>DownloadImage\<close> returns \<open>("", nil)\<close> in both
  cases, leaving the game as it was.
\<close>

theorem already_present_counterexample:
  "succeeds onSteam [] (akamaiURL ''header.jpg'' ''220'')
   \<and> \<not> succeeds nowhere [] (akamaiURL ''header.jpg'' ''220'')
   \<and> fst (getImageAlternatives onSteam stubLibrary halfLife ''Banner'' bannerExtensions
         False '''' '''' '''' True True False []) = Done (None, '''', None)
   \<and> fst (getImageAlternatives nowhere stubLibrary halfLife ''Banner'' bannerExtensions
         False '''' '''' '''' True True False []) = Done (None, '''', None)
   \<and> fst (DownloadImage onSteam stubLibrary ''grid'' halfLife ''Banner'' bannerExtensions
         False '''' '''' '''' True True False []) = Done ('''', None, halfLife)
   \<and> fst (DownloadImage nowhere stubLibrary ''grid'' halfLife ''Banner'' bannerExtensions
         False '''' '''' '''' True True False []) = Done ('''', None, halfLife)"
  by (simp add: resolver_defs double_defs)

text \<open>
  C3, amended: with \<^verbatim>\<open>onlyMissingArtwork\<close> set and the Steam servers not skipped,
  when the download from the first server succeeds the resolver returns
  \<open>(nil, "", nil)\<close> after that one request, and when it fails and the download from the
  second server succeeds, after those two requests: no further download, no other
  provider. The value is the one the resolver returns when the download of the candidate
  fails.
\<close>

theorem already_present_outcome:
  "(\<not> skipSteam \<and> \<not> sgdbOnly \<and> onlyMissing \<and> 2 < length exts
      \<and> succeeds net tr (akamaiURL (exts ! 2) (ID game)) \<longrightarrow>
    getImageAlternatives net lib game artStyle exts skipSteam key secret client skipGoogle
        onlyMissing sgdbOnly tr =
      (Done (None, '''', None), tr @ [HttpGet (akamaiURL (exts ! 2) (ID game))]))
   \<and> (\<not> skipSteam \<and> \<not> sgdbOnly \<and> onlyMissing \<and> 2 < length exts
      \<and> \<not> succeeds net tr (akamaiURL (exts ! 2) (ID game))
      \<and> succeeds net (tr @ [HttpGet (akamaiURL (exts ! 2) (ID game))]) (steamCdnURL (exts ! 2) (ID game)) \<longrightarrow>
    getImageAlternatives net lib game artStyle exts skipSteam key secret client skipGoogle
        onlyMissing sgdbOnly tr =
      (Done (None, '''', None),
       tr @ [HttpGet (akamaiURL (exts ! 2) (ID game)), HttpGet (steamCdnURL (exts ! 2) (ID game))]))
   \<and> (\<not> succeeds net tr url \<longrightarrow>
    finalDownload net (label, url) tr = (Done (None, '''', None), tr @ [HttpGet url]))"
proof -
  let ?a = "akamaiURL (exts ! 2) (ID game)" and ?c = "steamCdnURL (exts ! 2) (ID game)"
  have first: "getImageAlternatives net lib game artStyle exts skipSteam key secret client skipGoogle
        onlyMissing sgdbOnly tr = (Done (None, '''', None), tr @ [HttpGet ?a])"
    if "\<not> skipSteam" and "\<not> sgdbOnly" and "onlyMissing" and "2 < length exts"
      and ok: "succeeds net tr ?a"
  proof -
    obtain r where "tryDownload net ?a tr = (Done (Some r, None), tr @ [HttpGet ?a])"
      using tryDownload_succeeds [OF ok] by blast
    then have "steamServers net game exts skipSteam onlyMissing sgdbOnly tr =
        (Done (Inl (None, '''', None)), tr @ [HttpGet ?a])"
      using that by (simp add: steamServers_def index_def bind_io_def ret_def)
    then show ?thesis
      by (simp add: getImageAlternatives_def or_return_apply)
  qed
  have second: "getImageAlternatives net lib game artStyle exts skipSteam key secret client skipGoogle
        onlyMissing sgdbOnly tr = (Done (None, '''', None), tr @ [HttpGet ?a, HttpGet ?c])"
    if "\<not> skipSteam" and "\<not> sgdbOnly" and "onlyMissing" and "2 < length exts"
      and no: "\<not> succeeds net tr ?a" and ok: "succeeds net (tr @ [HttpGet ?a]) ?c"
  proof -
    obtain e where "tryDownload net ?a tr = (Done (None, e), tr @ [HttpGet ?a])"
      using tryDownload_fails [OF no] by blast
    moreover obtain r where
      "tryDownload net ?c (tr @ [HttpGet ?a]) = (Done (Some r, None), (tr @ [HttpGet ?a]) @ [HttpGet ?c])"
      using tryDownload_succeeds [OF ok] by blast
    ultimately have "steamServers net game exts skipSteam onlyMissing sgdbOnly tr =
        (Done (Inl (None, '''', None)), tr @ [HttpGet ?a, HttpGet ?c])"
      using that by (simp add: steamServers_def index_def bind_io_def ret_def)
    then show ?thesis
      by (simp add: getImageAlternatives_def or_return_apply)
  qed
  show ?thesis
    using first second finalDownload_fails by blast
qed

text \<open>
  The theorem at work: an image on the first server, an image on the second server only
  (a network that answers its first request with 404), and a candidate found nowhere.
\<close>

theorem already_present_witness:
  "getImageAlternatives onSteam stubLibrary halfLife ''Banner'' bannerExtensions
       False ''key'' [] [] False True False [] =
     (Done (None, [], None), [HttpGet ''https://steamcdn-a.akamaihd.net/steam/apps/220/header.jpg''])
   \<and> getImageAlternatives
       (\<lambda>tr rq. if tr = [] then respond 404 [] [] else respond 200 ''image/jpeg'' [1])
       stubLibrary halfLife ''Banner'' bannerExtensions
       False ''key'' [] [] False True False [] =
     (Done (None, [], None),
      [HttpGet ''https://steamcdn-a.akamaihd.net/steam/apps/220/header.jpg'',
       HttpGet ''cdn.akamai.steamstatic.com/steam/apps/220/header.jpg''])
   \<and> finalDownload nowhere (''steam server'', []) [] = (Done (None, [], None), [HttpGet []])"
proof -
  have a: "getImageAlternatives onSteam stubLibrary halfLife ''Banner'' bannerExtensions
       False ''key'' [] [] False True False [] =
     (Done (None, [], None), [HttpGet ''https://steamcdn-a.akamaihd.net/steam/apps/220/header.jpg''])"
    using already_present_outcome [where net = onSteam and tr = "[]" and exts = bannerExtensions
      and game = halfLife and skipSteam = False and sgdbOnly = False and onlyMissing = True
      and lib = stubLibrary and artStyle = "''Banner''" and key = "''key''" and secret = "[]"
      and client = "[]" and skipGoogle = False]
    by (simp add: succeeds_def akamaiURL_def steamCdnURL_def onSteam_def respond_def
          bannerExtensions_def halfLife_def)
  have b: "getImageAlternatives
       (\<lambda>tr rq. if tr = [] then respond 404 [] [] else respond 200 ''image/jpeg'' [1])
       stubLibrary halfLife ''Banner'' bannerExtensions
       False ''key'' [] [] False True False [] =
     (Done (None, [], None),
      [HttpGet ''https://steamcdn-a.akamaihd.net/steam/apps/220/header.jpg'',
       HttpGet ''cdn.akamai.steamstatic.com/steam/apps/220/header.jpg''])"
    using already_present_outcome
      [where net = "\<lambda>tr rq. if tr = [] then respond 404 [] [] else respond 200 ''image/jpeg'' [1]"
      and tr = "[]" and exts = bannerExtensions
      and game = halfLife and skipSteam = False and sgdbOnly = False and onlyMissing = True
      and lib = stubLibrary and artStyle = "''Banner''" and key = "''key''" and secret = "[]"
      and client = "[]" and skipGoogle = False]
    by (simp add: succeeds_def akamaiURL_def steamCdnURL_def respond_def
          bannerExtensions_def halfLife_def)
  have c: "finalDownload nowhere (''steam server'', []) [] = (Done (None, [], None), [HttpGet []])"
    using already_present_outcome [where net = nowhere and tr = "[]" and url = "[]"
      and label = "''steam server''"]
    by (simp add: succeeds_def nowhere_def respond_def)
  show ?thesis
    using a b c by simp
qed

subsection \<open>C4: which failures reach the caller\<close>


lemma fromSteamGridDB_returns:
  "fromSteamGridDB net lib game exts key l0 tr = (Done (Inl (r, l, e)), t) \<Longrightarrow>
     r = None \<and> l = ''SteamGridDB''"
  by (auto simp: fromSteamGridDB_def bind_io_def ret_def split: if_splits prod.splits outcome.splits)

lemma fromIGDB_returns:
  "fromIGDB net lib game artStyle secret client sgdbOnly st tr = (Done (Inl (r, l, e)), t) \<Longrightarrow>
     r = None \<and> l = ''IGDB''"
  by (auto simp: fromIGDB_def bind_io_def ret_def split: if_splits prod.splits outcome.splits)

lemma fromGoogle_returns:
  "fromGoogle net lib game artStyle exts skipGoogle sgdbOnly st tr = (Done (Inl (r, l, e)), t) \<Longrightarrow>
     r = None \<and> l = ''search''"
  by (auto simp: fromGoogle_def bind_io_def ret_def split: if_splits prod.splits outcome.splits)






subsection \<open>C5: custom games and the Steam servers\<close>

lemma sends_only_ret: "sends_only (ret x) P"
  by (simp add: sends_only_def ret_def)

lemma sends_only_panic: "sends_only panic P"
  by (simp add: sends_only_def panic_def)

lemma sends_only_send: "P rq \<Longrightarrow> sends_only (send net rq) P"
  by (simp add: sends_only_def send_def)

lemma sends_only_bind:
  assumes m: "sends_only m P" and f: "\<And>x. sends_only (f x) P"
  shows "sends_only (bind_io m f) P"
  unfolding sends_only_def
proof
  fix tr
  from m obtain n1 where n1: "snd (m tr) = tr @ n1" "list_all P n1"
    unfolding sends_only_def by blast
  show "\<exists>new. snd (bind_io m f tr) = tr @ new \<and> list_all P new"
  proof (cases "fst (m tr)")
    case Panic
    then have "snd (bind_io m f tr) = tr @ n1"
      using n1 by (cases "m tr") (simp add: bind_io_def)
    then show ?thesis using n1(2) by blast
  next
    case (Done x)
    from f obtain n2 where n2: "snd (f x (tr @ n1)) = (tr @ n1) @ n2" "list_all P n2"
      unfolding sends_only_def by blast
    have "snd (bind_io m f tr) = tr @ (n1 @ n2)"
      using Done n1 n2 by (cases "m tr") (simp add: bind_io_def)
    moreover have "list_all P (n1 @ n2)"
      using n1(2) n2(2) by simp
    ultimately show ?thesis by blast
  qed
qed

lemma sends_only_case_option:
  "sends_only a P \<Longrightarrow> (\<And>x. sends_only (f x) P) \<Longrightarrow> sends_only (case r of None \<Rightarrow> a | Some x \<Rightarrow> f x) P"
  by (cases r) simp_all

lemma sends_only_issued: "sends_only m P \<Longrightarrow> r \<in> set (issued tr (snd (m tr))) \<Longrightarrow> P r"
  unfolding sends_only_def issued_def by (metis append_eq_conv_conj list_all_iff)

lemma sends_only_steamGridDBGetRequest:
  "P (SteamGridDBDo url (''Bearer '' @ key)) \<Longrightarrow> sends_only (steamGridDBGetRequest net lib url key) P"
  unfolding steamGridDBGetRequest_def
  by (auto intro!: sends_only_ret sends_only_bind sends_only_send split: option.splits reply.splits)

lemma sends_only_searchByName:
  assumes "P (SteamGridDBDo (steamGridDBBaseURL @ ''/search/autocomplete/'' @ Name game @ filterQuery)
              (''Bearer '' @ key))"
    and "\<And>i. P (SteamGridDBDo (baseURL @ ''/game/'' @ Itoa lib i @ filterQuery) (''Bearer '' @ key))"
  shows "sends_only (searchByName net lib game baseURL filterQuery key animatedFirst) P"
  unfolding searchByName_def
  using assms
  by (auto simp: bind_simps
        intro!: sends_only_ret sends_only_panic sends_only_bind sends_only_steamGridDBGetRequest
        split: option.splits sum.splits list.splits)

lemma sends_only_steamGridDBIteration_custom:
  assumes "Custom game"
  shows "sends_only (steamGridDBIteration net lib game exts key)
     (\<lambda>r. r \<noteq> SteamGridDBDo (baseURL_of (exts ! 1) @ ''/steam/'' @ ID game @ exts ! 3) (''Bearer '' @ key))"
proof -
  let ?P = "\<lambda>r. r \<noteq> SteamGridDBDo (baseURL_of (exts ! 1) @ ''/steam/'' @ ID game @ exts ! 3)
                       (''Bearer '' @ key)"
  have "sends_only (searchByName net lib game (baseURL_of (exts ! 1)) (exts ! 3) key a) ?P" for a
    by (rule sends_only_searchByName) (simp_all add: baseURL_of_def steamGridDBBaseURL_def)
  then show ?thesis
    unfolding steamGridDBIteration_def Let_def bind_index
    using assms by (simp add: bind_ret sends_only_panic)
qed

lemma sends_only_getSteamGridDBImage_custom:
  assumes "Custom game"
  shows "sends_only (getSteamGridDBImage net lib game exts key)
     (\<lambda>r. r \<noteq> SteamGridDBDo (baseURL_of (exts ! 1) @ ''/steam/'' @ ID game @ exts ! 3) (''Bearer '' @ key))"
  unfolding getSteamGridDBImage_def steamGridDBLoop_unroll
  by (intro sends_only_bind sends_only_case_option sends_only_ret
        sends_only_steamGridDBIteration_custom [OF assms])

lemma emits_after_steamServers:
  "emits (or_return (fromSteamGridDB net lib game exts key label)
       (\<lambda>st. or_return (fromIGDB net lib game artStyle secret client sgdbOnly st)
       (\<lambda>st. or_return (fromGoogle net lib game artStyle exts skipGoogle sgdbOnly st)
          (finalDownload net))))
     (budget artStyle True key)"
  apply (rule emits_or_return [OF emits_fromSteamGridDB])
   apply (simp add: only_def budget_def split: provider.splits)
  apply (rule emits_or_return [OF emits_fromIGDB])
   apply (simp add: only_def budget_def split: provider.splits)
  apply (rule emits_or_return [OF emits_fromGoogle])
   apply (simp add: only_def budget_def split: provider.splits)
  apply (rule emits_mono [OF emits_finalDownload])
  apply (simp add: only_def budget_def split: provider.splits)
  done

lemma or_return_extends:
  assumes "\<And>a. emits (f a) b"
  shows "\<exists>new. snd (or_return m f tr) = snd (m tr) @ new"
proof (cases "m tr")
  case (Pair x t)
  show ?thesis
  proof (cases x)
    case Panic
    then show ?thesis using Pair by (simp add: or_return_apply)
  next
    case (Done y)
    show ?thesis
    proof (cases y)
      case (Inl r)
      then show ?thesis using Pair Done by (simp add: or_return_apply)
    next
      case (Inr a)
      from assms [of a] obtain new where "snd (f a t) = t @ new"
        unfolding emits_def by blast
      then show ?thesis using Pair Done Inr by (simp add: or_return_apply)
    qed
  qed
qed

lemma steamServers_first:
  assumes "\<not> skipSteam" and "\<not> sgdbOnly" and "2 < length exts"
  shows "\<exists>new. snd (steamServers net game exts skipSteam onlyMissing sgdbOnly tr) =
           tr @ HttpGet (akamaiURL (exts ! 2) (ID game)) # new"
  using assms
  by (auto simp: steamServers_def index_def tryDownload_def bind_io_def send_def ret_def
        split: reply.splits)

text \<open>
  C5 as stated fails: the query of the Steam servers does not look at the custom flag. For
  a custom game, with the Steam servers not skipped, the resolver builds both URLs from
  the identifier of the shortcut and requests them.
\<close>

theorem custom_game_on_steam_servers_counterexample:
  "Custom shortcut
   \<and> issued [] (snd (getImageAlternatives nowhere stubLibrary shortcut ''Banner'' bannerExtensions
        False '''' '''' '''' True False False [])) =
     [HttpGet ''https://steamcdn-a.akamaihd.net/steam/apps/3405062478/header.jpg'',
      HttpGet ''cdn.akamai.steamstatic.com/steam/apps/3405062478/header.jpg'',
      HttpGet '''']"
  by (simp add: resolver_defs double_defs)

text \<open>
  C5, amended: the Steam servers are gated by the two flags alone. With \<^verbatim>\<open>skipSteam\<close> or
  \<^verbatim>\<open>steamGridDBOnly\<close> set their block does nothing, and the resolution downloads at most
  once (the candidate); with neither set its first request is the first Steam URL of the
  game's identifier, custom game or not. What a custom game skips is the query of
  SteamGridDB by Steam identifier: \<^verbatim>\<open>getSteamGridDBImage\<close> never sends it.
\<close>

theorem steam_servers_gate:
  "(skipSteam \<or> sgdbOnly \<longrightarrow>
      steamServers net game exts skipSteam onlyMissing sgdbOnly tr = (Done (Inr ''steam server''), tr)
      \<and> length (requests_to Downloader (issued tr (snd (getImageAlternatives net lib game artStyle exts
           skipSteam key secret client skipGoogle onlyMissing sgdbOnly tr)))) \<le> 1)
   \<and> (\<not> skipSteam \<and> \<not> sgdbOnly \<and> 2 < length exts \<longrightarrow>
      take 1 (issued tr (snd (getImageAlternatives net lib game artStyle exts
           skipSteam key secret client skipGoogle onlyMissing sgdbOnly tr))) =
        [HttpGet (akamaiURL (exts ! 2) (ID game))])
   \<and> (Custom game \<longrightarrow>
      SteamGridDBDo (baseURL_of (exts ! 1) @ ''/steam/'' @ ID game @ exts ! 3) (''Bearer '' @ key)
        \<notin> set (issued tr (snd (getSteamGridDBImage net lib game exts key tr))))"
proof -
  let ?new = "issued tr (snd (getImageAlternatives net lib game artStyle exts
           skipSteam key secret client skipGoogle onlyMissing sgdbOnly tr))"
  have A: "skipSteam \<or> sgdbOnly \<longrightarrow>
      steamServers net game exts skipSteam onlyMissing sgdbOnly tr = (Done (Inr ''steam server''), tr)
      \<and> length (requests_to Downloader ?new) \<le> 1"
  proof
    assume skip: "skipSteam \<or> sgdbOnly"
    have "length (requests_to Downloader ?new) \<le> budget artStyle (skipSteam \<or> sgdbOnly) key Downloader"
      by (rule issued_bound [OF emits_getImageAlternatives])
    then have "length (requests_to Downloader ?new) \<le> 1"
      using skip by (simp add: budget_def)
    moreover have "steamServers net game exts skipSteam onlyMissing sgdbOnly tr =
        (Done (Inr ''steam server''), tr)"
      using skip by (auto simp: steamServers_def ret_def)
    ultimately show "steamServers net game exts skipSteam onlyMissing sgdbOnly tr =
        (Done (Inr ''steam server''), tr) \<and> length (requests_to Downloader ?new) \<le> 1"
      by simp
  qed
  have B: "\<not> skipSteam \<and> \<not> sgdbOnly \<and> 2 < length exts \<longrightarrow>
      take 1 ?new = [HttpGet (akamaiURL (exts ! 2) (ID game))]"
  proof
    assume h: "\<not> skipSteam \<and> \<not> sgdbOnly \<and> 2 < length exts"
    then obtain n1 where n1: "snd (steamServers net game exts skipSteam onlyMissing sgdbOnly tr) =
        tr @ HttpGet (akamaiURL (exts ! 2) (ID game)) # n1"
      using steamServers_first by blast
    have "\<exists>n2. snd (getImageAlternatives net lib game artStyle exts
           skipSteam key secret client skipGoogle onlyMissing sgdbOnly tr) =
        snd (steamServers net game exts skipSteam onlyMissing sgdbOnly tr) @ n2"
      unfolding getImageAlternatives_def
      by (rule or_return_extends) (rule emits_after_steamServers)
    then obtain n2 where "snd (getImageAlternatives net lib game artStyle exts
           skipSteam key secret client skipGoogle onlyMissing sgdbOnly tr) =
        snd (steamServers net game exts skipSteam onlyMissing sgdbOnly tr) @ n2"
      by blast
    then show "take 1 ?new = [HttpGet (akamaiURL (exts ! 2) (ID game))]"
      using n1 by (simp add: issued_def)
  qed
  have C: "Custom game \<longrightarrow>
      SteamGridDBDo (baseURL_of (exts ! 1) @ ''/steam/'' @ ID game @ exts ! 3) (''Bearer '' @ key)
        \<notin> set (issued tr (snd (getSteamGridDBImage net lib game exts key tr)))"
    using sends_only_issued [OF sends_only_getSteamGridDBImage_custom] by blast
  show ?thesis
    by (insert A B C, intro conjI, assumption+)
qed

text \<open>
  The theorem at work: a resolution with the Steam servers skipped, the custom game of
  the counterexample with the servers not skipped, and the same game at SteamGridDB.
\<close>

theorem steam_servers_gate_witness:
  "steamServers nowhere halfLife bannerExtensions True False False [] = (Done (Inr ''steam server''), [])
   \<and> length (requests_to Downloader (issued [] (snd (getImageAlternatives nowhere stubLibrary halfLife
        ''Banner'' bannerExtensions True ''key'' [] [] False False False [])))) \<le> 1
   \<and> take 1 (issued [] (snd (getImageAlternatives nowhere stubLibrary shortcut
        ''Banner'' bannerExtensions False ''key'' [] [] False False False []))) =
       [HttpGet ''https://steamcdn-a.akamaihd.net/steam/apps/3405062478/header.jpg'']
   \<and> SteamGridDBDo
        ''https://www.steamgriddb.com/api/v2/grids/steam/3405062478?styles=alternate&types=static&nsfw=false&humor=false&dimensions=460x215,920x430''
        ''Bearer key''
       \<notin> set (issued [] (snd (getSteamGridDBImage nowhere stubLibrary shortcut bannerExtensions ''key'' [])))"
proof -
  have a: "steamServers nowhere halfLife bannerExtensions True False False [] = (Done (Inr ''steam server''), [])
   \<and> length (requests_to Downloader (issued [] (snd (getImageAlternatives nowhere stubLibrary halfLife
        ''Banner'' bannerExtensions True ''key'' [] [] False False False [])))) \<le> 1"
    using steam_servers_gate [where skipSteam = True and sgdbOnly = False and net = nowhere
        and game = halfLife and exts = bannerExtensions and onlyMissing = False and tr = "[]"
        and lib = stubLibrary and artStyle = "''Banner''" and key = "''key''" and secret = "[]"
        and client = "[]" and skipGoogle = False]
    by simp
  have b: "take 1 (issued [] (snd (getImageAlternatives nowhere stubLibrary shortcut
        ''Banner'' bannerExtensions False ''key'' [] [] False False False []))) =
       [HttpGet ''https://steamcdn-a.akamaihd.net/steam/apps/3405062478/header.jpg'']"
    using steam_servers_gate [where skipSteam = False and sgdbOnly = False and net = nowhere
        and game = shortcut and exts = bannerExtensions and onlyMissing = False and tr = "[]"
        and lib = stubLibrary and artStyle = "''Banner''" and key = "''key''" and secret = "[]"
        and client = "[]" and skipGoogle = False]
    by (simp add: bannerExtensions_def shortcut_def akamaiURL_def)
  have c: "SteamGridDBDo
        ''https://www.steamgriddb.com/api/v2/grids/steam/3405062478?styles=alternate&types=static&nsfw=false&humor=false&dimensions=460x215,920x430''
        ''Bearer key''
       \<notin> set (issued [] (snd (getSteamGridDBImage nowhere stubLibrary shortcut bannerExtensions ''key'' [])))"
    using steam_servers_gate [where game = shortcut and exts = bannerExtensions and key = "''key''"
        and tr = "[]" and net = nowhere and lib = stubLibrary]
    by (simp add: bannerExtensions_def shortcut_def baseURL_of_def steamGridDBBaseURL_def)
  show ?thesis
    using a b c by simp
qed

subsection \<open>C9: malformed response bodies\<close>




subsection \<open>What DownloadImage does with a response\<close>

lemma imageExt_pure: "imageExt lib r t = (x, t') \<Longrightarrow> t' = t"
  by (auto simp: imageExt_def Let_def index_def bind_io_def ret_def panic_def
        split: if_splits prod.splits outcome.splits)

lemma DownloadImage_without_response:
  assumes "getImageAlternatives net lib game artStyle exts skipSteam key secret client skipGoogle
             onlyMissing sgdbOnly tr = (Done (response, label, err), t)"
    and "response = None \<or> err \<noteq> None"
  shows "DownloadImage net lib gridDir game artStyle exts skipSteam key secret client skipGoogle
           onlyMissing sgdbOnly tr = (Done ('''', err, game), t)"
  using assms by (auto simp: DownloadImage_def bind_io_def ret_def split: option.splits)

lemma DownloadImage_panics:
  assumes "getImageAlternatives net lib game artStyle exts skipSteam key secret client skipGoogle
             onlyMissing sgdbOnly tr = (Done (Some r, label, None), t)"
    and "imageExt lib r t = (Panic, t)"
  shows "DownloadImage net lib gridDir game artStyle exts skipSteam key secret client skipGoogle
           onlyMissing sgdbOnly tr = (Panic, t)"
  using assms by (simp add: DownloadImage_def bind_io_def ret_def)

lemma DownloadImage_with_response:
  assumes "getImageAlternatives net lib game artStyle exts skipSteam key secret client skipGoogle
             onlyMissing sgdbOnly tr = (Done (Some r, label, None), t)"
    and "imageExt lib r t = (Done ext, t)"
  shows "DownloadImage net lib gridDir game artStyle exts skipSteam key secret client skipGoogle
           onlyMissing sgdbOnly tr =
     (case imgSize lib (ContentType r) (Body r) of
        Inl e \<Rightarrow> (Done ('''', Some e, game\<lparr>ImageExt := ext\<rparr>), t)
      | Inr (X, Y) \<Rightarrow>
          if artStyle = ''Banner'' \<and> X < Y then (Done ('''', None, game\<lparr>ImageExt := ext\<rparr>), t)
          else if artStyle = ''Cover'' \<and> X > Y then (Done ('''', None, game\<lparr>ImageExt := ext\<rparr>), t)
          else (Done (label, None,
                  game\<lparr>ImageExt := ext, ImageSource := label, CleanImageBytes := Some (Body r)\<rparr>), t))"
  using assms
  by (simp add: DownloadImage_def bind_io_def ret_def Let_def split: sum.splits prod.splits)

subsection \<open>C7: the aspect ratio\<close>

text \<open>
  C7: for a downloaded image of detected width \<open>w\<close> and height \<open>h\<close>, a Banner with
  \<open>w < h\<close> and a Cover with \<open>w > h\<close> are rejected, and \<^verbatim>\<open>DownloadImage\<close> returns
  \<open>("", nil)\<close> without a payload; in every other case, so for every Hero and every Logo,
  the image is accepted; and a WEBP image for which the decoder reports 600 by 900 is
  detected with exactly that size and accepted as a Cover.
\<close>

theorem aspect_ratio_policy:
  assumes "getImageAlternatives net lib game artStyle exts skipSteam key secret client skipGoogle
             onlyMissing sgdbOnly tr = (Done (Some r, label, None), t)"
    and "imageExt lib r t = (Done ext, t)"
    and "imgSize lib (ContentType r) (Body r) = Inr (w, h)"
  shows "(artStyle = ''Banner'' \<and> w < h \<or> artStyle = ''Cover'' \<and> h < w \<longrightarrow>
      DownloadImage net lib gridDir game artStyle exts skipSteam key secret client skipGoogle
          onlyMissing sgdbOnly tr = (Done ('''', None, game\<lparr>ImageExt := ext\<rparr>), t))
   \<and> (\<not> (artStyle = ''Banner'' \<and> w < h) \<and> \<not> (artStyle = ''Cover'' \<and> h < w) \<longrightarrow>
      DownloadImage net lib gridDir game artStyle exts skipSteam key secret client skipGoogle
          onlyMissing sgdbOnly tr =
        (Done (label, None,
           game\<lparr>ImageExt := ext, ImageSource := label, CleanImageBytes := Some (Body r)\<rparr>), t))
   \<and> (artStyle = ''Hero'' \<or> artStyle = ''Logo'' \<longrightarrow>
      DownloadImage net lib gridDir game artStyle exts skipSteam key secret client skipGoogle
          onlyMissing sgdbOnly tr =
        (Done (label, None,
           game\<lparr>ImageExt := ext, ImageSource := label, CleanImageBytes := Some (Body r)\<rparr>), t))
   \<and> (artStyle = ''Cover'' \<and> strings_Contains (ContentType r) ''webp''
        \<and> webpanimation_GetInfo lib (Body r) = Inr (600, 900) \<longrightarrow>
      w = 600 \<and> h = 900
      \<and> DownloadImage net lib gridDir game artStyle exts skipSteam key secret client skipGoogle
          onlyMissing sgdbOnly tr =
        (Done (label, None,
           game\<lparr>ImageExt := ext, ImageSource := label, CleanImageBytes := Some (Body r)\<rparr>), t))"
proof -
  note D = DownloadImage_with_response [OF assms(1,2), of gridDir]
  have A: "artStyle = ''Banner'' \<and> w < h \<or> artStyle = ''Cover'' \<and> h < w \<longrightarrow>
      DownloadImage net lib gridDir game artStyle exts skipSteam key secret client skipGoogle
          onlyMissing sgdbOnly tr = (Done ('''', None, game\<lparr>ImageExt := ext\<rparr>), t)"
    using D assms(3) by auto
  have B: "\<not> (artStyle = ''Banner'' \<and> w < h) \<and> \<not> (artStyle = ''Cover'' \<and> h < w) \<longrightarrow>
      DownloadImage net lib gridDir game artStyle exts skipSteam key secret client skipGoogle
          onlyMissing sgdbOnly tr =
        (Done (label, None,
           game\<lparr>ImageExt := ext, ImageSource := label, CleanImageBytes := Some (Body r)\<rparr>), t)"
    using D assms(3) by auto
  have C: "artStyle = ''Hero'' \<or> artStyle = ''Logo'' \<longrightarrow>
      DownloadImage net lib gridDir game artStyle exts skipSteam key secret client skipGoogle
          onlyMissing sgdbOnly tr =
        (Done (label, None,
           game\<lparr>ImageExt := ext, ImageSource := label, CleanImageBytes := Some (Body r)\<rparr>), t)"
    using D assms(3) by auto
  have E: "artStyle = ''Cover'' \<and> strings_Contains (ContentType r) ''webp''
        \<and> webpanimation_GetInfo lib (Body r) = Inr (600, 900) \<longrightarrow>
      w = 600 \<and> h = 900
      \<and> DownloadImage net lib gridDir game artStyle exts skipSteam key secret client skipGoogle
          onlyMissing sgdbOnly tr =
        (Done (label, None,
           game\<lparr>ImageExt := ext, ImageSource := label, CleanImageBytes := Some (Body r)\<rparr>), t)"
  proof
    assume h: "artStyle = ''Cover'' \<and> strings_Contains (ContentType r) ''webp''
        \<and> webpanimation_GetInfo lib (Body r) = Inr (600, 900)"
    then have "imgSize lib (ContentType r) (Body r) = Inr (600, 900)"
      by (simp add: imgSize_def)
    then have wh: "w = 600 \<and> h = 900"
      using assms(3) by simp
    then show "w = 600 \<and> h = 900
      \<and> DownloadImage net lib gridDir game artStyle exts skipSteam key secret client skipGoogle
          onlyMissing sgdbOnly tr =
        (Done (label, None,
           game\<lparr>ImageExt := ext, ImageSource := label, CleanImageBytes := Some (Body r)\<rparr>), t)"
      using D assms(3) h by auto
  qed
  show ?thesis
    by (insert A B C E, intro conjI, assumption+)
qed

text \<open>
  The theorem at work on a Steam server that serves a WEBP image of 600 by 900: accepted as
  a Cover, with that size; rejected as a Banner; accepted as a Hero.
\<close>

theorem aspect_ratio_witness:
  "imgSize stubLibrary ''image/webp'' [1] = Inr (600, 900)
   \<and> DownloadImage onSteam stubLibrary ''grid'' halfLife ''Cover'' coverExtensions
       False [] [] [] True False False [] =
     (Done (''steam server'', None,
        halfLife\<lparr>ImageExt := ''.webp'', ImageSource := ''steam server'', CleanImageBytes := Some [1]\<rparr>),
      [HttpGet ''https://steamcdn-a.akamaihd.net/steam/apps/220/library_600x900_2x.jpg''])
   \<and> DownloadImage onSteam stubLibrary ''grid'' halfLife ''Banner'' bannerExtensions
       False [] [] [] True False False [] =
     (Done ([], None, halfLife\<lparr>ImageExt := ''.webp''\<rparr>),
      [HttpGet ''https://steamcdn-a.akamaihd.net/steam/apps/220/header.jpg''])
   \<and> DownloadImage onSteam stubLibrary ''grid'' halfLife ''Hero'' heroExtensions
       False [] [] [] True False False [] =
     (Done (''steam server'', None,
        halfLife\<lparr>ImageExt := ''.webp'', ImageSource := ''steam server'', CleanImageBytes := Some [1]\<rparr>),
      [HttpGet ''https://steamcdn-a.akamaihd.net/steam/apps/220/library_hero.jpg''])"
proof -
  let ?r = "\<lparr>StatusCode = 200, Status = [], ContentType = ''image/webp'', URLPath = [],
             Body = [1], BodyErr = None\<rparr>"
  have size: "imgSize stubLibrary ''image/webp'' [1] = Inr (600, 900)"
    by (simp add: imgSize_def stubLibrary_def)
  have ext: "imageExt stubLibrary ?r t = (Done ''.webp'', t)" for t
    by (simp add: imageExt_def index_def bind_io_def ret_def stubLibrary_def)
  have cover: "getImageAlternatives onSteam stubLibrary halfLife ''Cover'' coverExtensions
       False [] [] [] True False False [] =
     (Done (Some ?r, ''steam server'', None),
      [HttpGet ''https://steamcdn-a.akamaihd.net/steam/apps/220/library_600x900_2x.jpg''])"
    by (simp add: resolver_defs double_defs)
  have banner: "getImageAlternatives onSteam stubLibrary halfLife ''Banner'' bannerExtensions
       False [] [] [] True False False [] =
     (Done (Some ?r, ''steam server'', None),
      [HttpGet ''https://steamcdn-a.akamaihd.net/steam/apps/220/header.jpg''])"
    by (simp add: resolver_defs double_defs)
  have hero: "getImageAlternatives onSteam stubLibrary halfLife ''Hero'' heroExtensions
       False [] [] [] True False False [] =
     (Done (Some ?r, ''steam server'', None),
      [HttpGet ''https://steamcdn-a.akamaihd.net/steam/apps/220/library_hero.jpg''])"
    by (simp add: resolver_defs double_defs)
  have a: "DownloadImage onSteam stubLibrary ''grid'' halfLife ''Cover'' coverExtensions
       False [] [] [] True False False [] =
     (Done (''steam server'', None,
        halfLife\<lparr>ImageExt := ''.webp'', ImageSource := ''steam server'', CleanImageBytes := Some [1]\<rparr>),
      [HttpGet ''https://steamcdn-a.akamaihd.net/steam/apps/220/library_600x900_2x.jpg''])"
    using aspect_ratio_policy [OF cover ext, of 600 900 "''grid''"] size
    by (simp add: stubLibrary_def)
  have b: "DownloadImage onSteam stubLibrary ''grid'' halfLife ''Banner'' bannerExtensions
       False [] [] [] True False False [] =
     (Done ([], None, halfLife\<lparr>ImageExt := ''.webp''\<rparr>),
      [HttpGet ''https://steamcdn-a.akamaihd.net/steam/apps/220/header.jpg''])"
    using aspect_ratio_policy [OF banner ext, of 600 900 "''grid''"] size
    by simp
  have c: "DownloadImage onSteam stubLibrary ''grid'' halfLife ''Hero'' heroExtensions
       False [] [] [] True False False [] =
     (Done (''steam server'', None,
        halfLife\<lparr>ImageExt := ''.webp'', ImageSource := ''steam server'', CleanImageBytes := Some [1]\<rparr>),
      [HttpGet ''https://steamcdn-a.akamaihd.net/steam/apps/220/library_hero.jpg''])"
    using aspect_ratio_policy [OF hero ext, of 600 900 "''grid''"] size
    by simp
  show ?thesis
    using size a b c by simp
qed

subsection \<open>C8: the extension\<close>





subsection \<open>C10: what DownloadImage writes into the game\<close>

lemma steamServers_labels:
  "steamServers net game exts skipSteam onlyMissing sgdbOnly tr = (Done x, t) \<Longrightarrow>
     (case x of Inl (r, l, e) \<Rightarrow> r \<noteq> None \<longrightarrow> l \<noteq> '''' | Inr l \<Rightarrow> l \<noteq> '''')"
  by (auto simp: steamServers_def index_def bind_io_def ret_def panic_def
        split: if_splits prod.splits outcome.splits)

lemma fromSteamGridDB_labels:
  "fromSteamGridDB net lib game exts key l0 tr = (Done (Inr (l, u)), t) \<Longrightarrow> l0 \<noteq> '''' \<Longrightarrow> l \<noteq> ''''"
  by (auto simp: fromSteamGridDB_def bind_io_def ret_def split: if_splits prod.splits outcome.splits)

lemma fromIGDB_labels:
  "fromIGDB net lib game artStyle secret client sgdbOnly (l0, u0) tr = (Done (Inr (l, u)), t) \<Longrightarrow>
     l0 \<noteq> '''' \<Longrightarrow> l \<noteq> ''''"
  by (auto simp: fromIGDB_def bind_io_def ret_def split: if_splits prod.splits outcome.splits)

lemma fromGoogle_labels:
  "fromGoogle net lib game artStyle exts skipGoogle sgdbOnly (l0, u0) tr = (Done (Inr (l, u)), t) \<Longrightarrow>
     l0 \<noteq> '''' \<Longrightarrow> l \<noteq> ''''"
  by (auto simp: fromGoogle_def bind_io_def ret_def split: if_splits prod.splits outcome.splits)

lemma finalDownload_labels:
  "finalDownload net (l0, u0) tr = (Done (Some r, l, e), t) \<Longrightarrow> l = l0"
  by (auto simp: finalDownload_def bind_io_def ret_def split: if_splits prod.splits outcome.splits)

text \<open>A response never comes with the empty label.\<close>

lemma getImageAlternatives_label:
  assumes "getImageAlternatives net lib game artStyle exts skipSteam key secret client skipGoogle
             onlyMissing sgdbOnly tr = (Done (Some r, l, e), t)"
  shows "l \<noteq> ''''"
proof -
  obtain x1 t1 where s1: "steamServers net game exts skipSteam onlyMissing sgdbOnly tr = (x1, t1)"
    by (cases "steamServers net game exts skipSteam onlyMissing sgdbOnly tr")
  show ?thesis
  proof (cases x1)
    case Panic
    then show ?thesis using assms s1 by (simp add: getImageAlternatives_def or_return_apply)
  next
    case (Done y1)
    note L1 = steamServers_labels [OF s1 [unfolded Done]]
    show ?thesis
    proof (cases y1)
      case (Inl a)
      then show ?thesis
        using assms s1 Done L1 by (auto simp: getImageAlternatives_def or_return_apply)
    next
      case (Inr l0)
      then have l0: "l0 \<noteq> ''''" using L1 by simp
      obtain x2 t2 where s2: "fromSteamGridDB net lib game exts key l0 t1 = (x2, t2)"
        by (cases "fromSteamGridDB net lib game exts key l0 t1")
      have rest: "(case x2 of Panic \<Rightarrow> (Panic, t2) | Done (Inl r) \<Rightarrow> (Done r, t2)
          | Done (Inr st) \<Rightarrow>
              or_return (fromIGDB net lib game artStyle secret client sgdbOnly st)
                (\<lambda>st. or_return (fromGoogle net lib game artStyle exts skipGoogle sgdbOnly st)
                   (finalDownload net)) t2) = (Done (Some r, l, e), t)"
        using assms s1 Done Inr s2 by (simp add: getImageAlternatives_def or_return_apply)
      show ?thesis
      proof (cases x2)
        case Panic
        then show ?thesis using rest by simp
      next
        case D2: (Done y2)
        show ?thesis
        proof (cases y2)
          case (Inl a)
          then show ?thesis
            using rest D2 s2 fromSteamGridDB_returns [of net lib game exts key l0 t1 "Some r" l e t2]
            by auto
        next
          case I2: (Inr st2)
          obtain l2 u2 where st2: "st2 = (l2, u2)" by (cases st2)
          have l2: "l2 \<noteq> ''''"
            using fromSteamGridDB_labels [of net lib game exts key l0 t1 l2 u2 t2] s2 D2 I2 st2 l0
            by simp
          obtain x3 t3 where s3:
            "fromIGDB net lib game artStyle secret client sgdbOnly (l2, u2) t2 = (x3, t3)"
            by (cases "fromIGDB net lib game artStyle secret client sgdbOnly (l2, u2) t2")
          have rest3: "(case x3 of Panic \<Rightarrow> (Panic, t3) | Done (Inl r) \<Rightarrow> (Done r, t3)
              | Done (Inr st) \<Rightarrow>
                  or_return (fromGoogle net lib game artStyle exts skipGoogle sgdbOnly st)
                    (finalDownload net) t3) = (Done (Some r, l, e), t)"
            using rest D2 I2 st2 s3 by (simp add: or_return_apply)
          show ?thesis
          proof (cases x3)
            case Panic
            then show ?thesis using rest3 by simp
          next
            case D3: (Done y3)
            show ?thesis
            proof (cases y3)
              case (Inl a)
              then show ?thesis
                using rest3 D3 s3
                  fromIGDB_returns [of net lib game artStyle secret client sgdbOnly "(l2, u2)" t2
                    "Some r" l e t3]
                by auto
            next
              case I3: (Inr st3)
              obtain l3 u3 where st3: "st3 = (l3, u3)" by (cases st3)
              have l3: "l3 \<noteq> ''''"
                using fromIGDB_labels [of net lib game artStyle secret client sgdbOnly l2 u2 t2 l3 u3 t3]
                  s3 D3 I3 st3 l2
                by simp
              obtain x4 t4 where s4:
                "fromGoogle net lib game artStyle exts skipGoogle sgdbOnly (l3, u3) t3 = (x4, t4)"
                by (cases "fromGoogle net lib game artStyle exts skipGoogle sgdbOnly (l3, u3) t3")
              have rest4: "(case x4 of Panic \<Rightarrow> (Panic, t4) | Done (Inl r) \<Rightarrow> (Done r, t4)
                  | Done (Inr st) \<Rightarrow> finalDownload net st t4) = (Done (Some r, l, e), t)"
                using rest3 D3 I3 st3 s4 by (simp add: or_return_apply)
              show ?thesis
              proof (cases x4)
                case Panic
                then show ?thesis using rest4 by simp
              next
                case D4: (Done y4)
                show ?thesis
                proof (cases y4)
                  case (Inl a)
                  then show ?thesis
                    using rest4 D4 s4
                      fromGoogle_returns [of net lib game artStyle exts skipGoogle sgdbOnly
                        "(l3, u3)" t3 "Some r" l e t4]
                    by auto
                next
                  case I4: (Inr st4)
                  obtain l4 u4 where st4: "st4 = (l4, u4)" by (cases st4)
                  have l4: "l4 \<noteq> ''''"
                    using fromGoogle_labels
                        [of net lib game artStyle exts skipGoogle sgdbOnly l3 u3 t3 l4 u4 t4]
                      s4 D4 I4 st4 l3
                    by simp
                  have "finalDownload net (l4, u4) t4 = (Done (Some r, l, e), t)"
                    using rest4 D4 I4 st4 by simp
                  then have "l = l4" by (rule finalDownload_labels)
                  then show ?thesis using l4 by simp
                qed
              qed
            qed
          qed
        qed
      qed
    qed
  qed
qed

lemma DownloadImage_frame:
  assumes D: "DownloadImage net lib gridDir game artStyle exts skipSteam key secret client skipGoogle
           onlyMissing sgdbOnly tr = (Done (label, err, game'), t)"
  shows "(err \<noteq> None \<or> label = '''' \<longrightarrow>
            CleanImageBytes game' = CleanImageBytes game \<and> ImageSource game' = ImageSource game)
      \<and> (err = None \<and> label \<noteq> '''' \<longrightarrow>
            ImageSource game' = label \<and> CleanImageBytes game' \<noteq> None)"
proof -
  obtain x t0 where g: "getImageAlternatives net lib game artStyle exts skipSteam key secret client
      skipGoogle onlyMissing sgdbOnly tr = (x, t0)"
    by (cases "getImageAlternatives net lib game artStyle exts skipSteam key secret client
      skipGoogle onlyMissing sgdbOnly tr")
  show ?thesis
  proof (cases x)
    case Panic
    then show ?thesis using D g by (simp add: DownloadImage_def bind_io_def)
  next
    case (Done y)
    obtain response l e where y: "y = (response, l, e)" by (cases y)
    note g' = g [unfolded Done y]
    show ?thesis
    proof (cases "response = None \<or> e \<noteq> None")
      case True
      then show ?thesis
        using DownloadImage_without_response [OF g' True, of gridDir] D by auto
    next
      case False
      then obtain r where r: "response = Some r" and e: "e = None" by auto
      note g'' = g' [unfolded r e]
      have l: "l \<noteq> ''''" by (rule getImageAlternatives_label [OF g''])
      obtain z u where i: "imageExt lib r t0 = (z, u)" by (cases "imageExt lib r t0")
      then have u: "u = t0" by (rule imageExt_pure)
      show ?thesis
      proof (cases z)
        case Panic
        then show ?thesis
          using DownloadImage_panics [OF g'', of gridDir] i u D by simp
      next
        case (Done ext)
        then have i': "imageExt lib r t0 = (Done ext, t0)" using i u by simp
        show ?thesis
          using DownloadImage_with_response [OF g'' i', of gridDir] D l
          by (auto split: sum.splits prod.splits if_splits)
      qed
    qed
  qed
qed

text \<open>
  C10: on every return of \<^verbatim>\<open>DownloadImage\<close> with an error or with the empty label (the
  benign not-found), the payload and the source label of the game are what they were on
  entry; they are written exactly when it returns a label and no error. The extension is
  written earlier: a Steam server serves a portrait WEBP for a Banner, validation rejects
  it, and the game comes back with the extension \<open>.webp\<close> it did not have.
\<close>

theorem payload_written_only_on_success:
  "(DownloadImage net lib gridDir game artStyle exts skipSteam key secret client skipGoogle
        onlyMissing sgdbOnly tr = (Done (label, err, game'), t)
      \<and> (err \<noteq> None \<or> label = '''') \<longrightarrow>
    CleanImageBytes game' = CleanImageBytes game \<and> ImageSource game' = ImageSource game)
   \<and> (DownloadImage net lib gridDir game artStyle exts skipSteam key secret client skipGoogle
        onlyMissing sgdbOnly tr = (Done (label, None, game'), t)
      \<and> label \<noteq> '''' \<longrightarrow>
    ImageSource game' = label \<and> CleanImageBytes game' \<noteq> None)
   \<and> ImageExt halfLife = ''''
   \<and> DownloadImage onSteam stubLibrary ''grid'' halfLife ''Banner'' bannerExtensions
        False '''' '''' '''' True False False [] =
      (Done ('''', None, halfLife\<lparr>ImageExt := ''.webp''\<rparr>),
       [HttpGet ''https://steamcdn-a.akamaihd.net/steam/apps/220/header.jpg''])"
proof -
  have A: "DownloadImage net lib gridDir game artStyle exts skipSteam key secret client skipGoogle
        onlyMissing sgdbOnly tr = (Done (label, err, game'), t)
      \<and> (err \<noteq> None \<or> label = '''') \<longrightarrow>
    CleanImageBytes game' = CleanImageBytes game \<and> ImageSource game' = ImageSource game"
    using DownloadImage_frame by blast
  have B: "DownloadImage net lib gridDir game artStyle exts skipSteam key secret client skipGoogle
        onlyMissing sgdbOnly tr = (Done (label, None, game'), t)
      \<and> label \<noteq> '''' \<longrightarrow>
    ImageSource game' = label \<and> CleanImageBytes game' \<noteq> None"
    using DownloadImage_frame [of net lib gridDir game artStyle exts skipSteam key secret client
        skipGoogle onlyMissing sgdbOnly tr label None game' t]
    by blast
  have C: "ImageExt halfLife = ''''"
    by (simp add: halfLife_def)
  have E: "DownloadImage onSteam stubLibrary ''grid'' halfLife ''Banner'' bannerExtensions
        False '''' '''' '''' True False False [] =
      (Done ('''', None, halfLife\<lparr>ImageExt := ''.webp''\<rparr>),
       [HttpGet ''https://steamcdn-a.akamaihd.net/steam/apps/220/header.jpg''])"
    by (simp add: resolver_defs double_defs)
  show ?thesis
    by (insert A B C E, intro conjI, assumption+)
qed

text \<open>
  The theorem at work: the rejected Banner above (not found), a resolution that ends with
  the error of SteamGridDB, and an accepted Cover.
\<close>

theorem payload_written_witness:
  "CleanImageBytes (halfLife\<lparr>ImageExt := ''.webp''\<rparr>) = CleanImageBytes halfLife
   \<and> ImageSource (halfLife\<lparr>ImageExt := ''.webp''\<rparr>) = ImageSource halfLife
   \<and> map_option CleanImageBytes (stored (DownloadImage offline stubLibrary ''grid'' halfLife ''Hero''
        heroExtensions True ''key'' [] [] False False False [])) = Some (CleanImageBytes halfLife)
   \<and> map_option ImageSource (stored (DownloadImage offline stubLibrary ''grid'' halfLife ''Hero''
        heroExtensions True ''key'' [] [] False False False [])) = Some (ImageSource halfLife)
   \<and> map_option ImageSource (stored (DownloadImage onSteam stubLibrary ''grid'' halfLife ''Cover''
        coverExtensions False [] [] [] True False False [])) = Some ''steam server''
   \<and> map_option CleanImageBytes (stored (DownloadImage onSteam stubLibrary ''grid'' halfLife ''Cover''
        coverExtensions False [] [] [] True False False [])) = Some (Some [1])"
proof -
  have rejected: "DownloadImage onSteam stubLibrary ''grid'' halfLife ''Banner'' bannerExtensions
        False [] [] [] True False False [] =
      (Done ([], None, halfLife\<lparr>ImageExt := ''.webp''\<rparr>),
       [HttpGet ''https://steamcdn-a.akamaihd.net/steam/apps/220/header.jpg''])"
    by (simp add: resolver_defs double_defs)
  have failed: "DownloadImage offline stubLibrary ''grid'' halfLife ''Hero''
        heroExtensions True ''key'' [] [] False False False [] =
      (Done ([], Some ''dial tcp: i/o timeout'', halfLife),
       [SteamGridDBDo
         ''https://www.steamgriddb.com/api/v2/heroes/steam/220?styles=alternate&types=static&nsfw=false&humor=false&dimensions=1920x620,3840x1240,1600x650''
         ''Bearer key''])"
    by (simp add: resolver_defs double_defs)
  have accepted: "DownloadImage onSteam stubLibrary ''grid'' halfLife ''Cover''
        coverExtensions False [] [] [] True False False [] =
      (Done (''steam server'', None,
         halfLife\<lparr>ImageExt := ''.webp'', ImageSource := ''steam server'', CleanImageBytes := Some [1]\<rparr>),
       [HttpGet ''https://steamcdn-a.akamaihd.net/steam/apps/220/library_600x900_2x.jpg''])"
    by (simp add: resolver_defs double_defs)
  have a: "CleanImageBytes (halfLife\<lparr>ImageExt := ''.webp''\<rparr>) = CleanImageBytes halfLife
      \<and> ImageSource (halfLife\<lparr>ImageExt := ''.webp''\<rparr>) = ImageSource halfLife"
    using payload_written_only_on_success [where net = onSteam and lib = stubLibrary
        and gridDir = "''grid''" and game = halfLife and artStyle = "''Banner''"
        and exts = bannerExtensions and skipSteam = False and key = "[]" and secret = "[]"
        and client = "[]" and skipGoogle = True and onlyMissing = False and sgdbOnly = False
        and tr = "[]" and label = "[]" and err = None and game' = "halfLife\<lparr>ImageExt := ''.webp''\<rparr>"
        and t = "[HttpGet ''https://steamcdn-a.akamaihd.net/steam/apps/220/header.jpg'']"]
      rejected
    by simp
  have b: "CleanImageBytes halfLife = CleanImageBytes halfLife \<and> ImageSource halfLife = ImageSource halfLife"
    using payload_written_only_on_success [where net = offline and lib = stubLibrary
        and gridDir = "''grid''" and game = halfLife and artStyle = "''Hero''"
        and exts = heroExtensions and skipSteam = True and key = "''key''" and secret = "[]"
        and client = "[]" and skipGoogle = False and onlyMissing = False and sgdbOnly = False
        and tr = "[]" and label = "[]" and err = "Some ''dial tcp: i/o timeout''" and game' = halfLife
        and t = "[SteamGridDBDo
         ''https://www.steamgriddb.com/api/v2/heroes/steam/220?styles=alternate&types=static&nsfw=false&humor=false&dimensions=1920x620,3840x1240,1600x650''
         ''Bearer key'']"]
      failed
    by simp
  have c: "ImageSource (halfLife\<lparr>ImageExt := ''.webp'', ImageSource := ''steam server'',
              CleanImageBytes := Some [1]\<rparr>) = ''steam server''"
    using payload_written_only_on_success [where net = onSteam and lib = stubLibrary
        and gridDir = "''grid''" and game = halfLife and artStyle = "''Cover''"
        and exts = coverExtensions and skipSteam = False and key = "[]" and secret = "[]"
        and client = "[]" and skipGoogle = True and onlyMissing = False and sgdbOnly = False
        and tr = "[]" and label = "''steam server''"
        and game' = "halfLife\<lparr>ImageExt := ''.webp'', ImageSource := ''steam server'',
              CleanImageBytes := Some [1]\<rparr>"
        and t = "[HttpGet ''https://steamcdn-a.akamaihd.net/steam/apps/220/library_600x900_2x.jpg'']"]
      accepted
    by simp
  show ?thesis
    using a b c by (simp add: failed accepted stored_def)
qed

subsection \<open>C2: the API key after a 401\<close>

text \<open>
  C2 holds of the provider and fails in the batch loop. SteamGridDB answers 401 to the query
  by Steam identifier; \<^verbatim>\<open>getSteamGridDBImage\<close> returns an error whose message starts with
  a space; the loop compares the message with the same text without the space, so it
  keeps the key, and the next round (the Cover of the same game) sends the key to
  SteamGridDB again. A 401 to the third request of the lookup comes back as the bare error
  \<open>401\<close>, which the loop does not compare with at all.
\<close>

theorem api_key_kept_after_401:
  "downloadIfMissing unauthorized stubLibrary ''grid'' halfLife ''Banner'' bannerExtensions
       True ''badkey'' '''' '''' True False False [] =
     (Done (''badkey'', Some '' SteamGridDB authorization token is missing or invalid'', halfLife),
      [SteamGridDBDo
         ''https://www.steamgriddb.com/api/v2/grids/steam/220?styles=alternate&types=static&nsfw=false&humor=false&dimensions=460x215,920x430''
         ''Bearer badkey''])
   \<and> issued
       [SteamGridDBDo
         ''https://www.steamgriddb.com/api/v2/grids/steam/220?styles=alternate&types=static&nsfw=false&humor=false&dimensions=460x215,920x430''
         ''Bearer badkey'']
       (snd (downloadIfMissing unauthorized stubLibrary ''grid'' halfLife ''Cover'' coverExtensions
          True ''badkey'' '''' '''' True False False
          [SteamGridDBDo
            ''https://www.steamgriddb.com/api/v2/grids/steam/220?styles=alternate&types=static&nsfw=false&humor=false&dimensions=460x215,920x430''
            ''Bearer badkey''])) =
     [SteamGridDBDo
        ''https://www.steamgriddb.com/api/v2/grids/steam/220?styles=alternate&types=static&nsfw=false&humor=false&dimensions=600x900,342x482,660x930''
        ''Bearer badkey'']
   \<and> downloadIfMissing unauthorizedLate stubLibrary ''grid'' halfLife ''Banner'' bannerExtensions
       True ''badkey'' '''' '''' True False False [] =
     (Done (''badkey'', Some ''401'', halfLife),
      [SteamGridDBDo
         ''https://www.steamgriddb.com/api/v2/grids/steam/220?styles=alternate&types=static&nsfw=false&humor=false&dimensions=460x215,920x430''
         ''Bearer badkey'',
       SteamGridDBDo
         ''https://www.steamgriddb.com/api/v2/search/autocomplete/Half-Life 2?styles=alternate&types=static&nsfw=false&humor=false&dimensions=460x215,920x430''
         ''Bearer badkey'',
       SteamGridDBDo
         ''https://www.steamgriddb.com/api/v2/grids/game/9?styles=alternate&types=static&nsfw=false&humor=false&dimensions=460x215,920x430''
         ''Bearer badkey''])"
  by (simp add: resolver_defs double_defs)

end
